theory Spec2Isabelle
  imports Main "HOL-Library.AList" "HOL-Library.Dlist"
begin

section \<open>The library lending model of \<open>biblioteca_py/domain.py\<close>\<close>

text \<open>
  A shallow embedding of the lending service. Objects held in a dictionary are modelled
  by value under their key (every key holds an object of its own); a dictionary whose
  iteration order the code relies on (\<open>loans\<close>) is an association list in insertion
  order; a Python \<open>set\<close> that is iterated (\<open>subs\<close>) is a list without duplicates in
  its iteration order; every operation returns its outcome together with the state it
  leaves behind, so that the state left by a raised exception can be inspected.
\<close>

subsection \<open>Dates\<close>

text \<open>
  A \<open>datetime.date\<close> is modelled by its proleptic Gregorian ordinal: \<open>date.min\<close> is day
  1 and \<open>date.max\<close> (9999-12-31) is day 3652059. Adding a \<open>timedelta\<close> raises
  \<open>OverflowError\<close> when the result leaves that range; the difference of two dates in
  days is the difference of the ordinals.
\<close>

type_synonym date = int

definition MINORDINAL :: int where
  "MINORDINAL = 1"

definition MAXORDINAL :: int where
  "MAXORDINAL = 3652059"

subsection \<open>Exceptions\<close>

datatype fault =
    COPY_NOT_FOUND
  | READER_NOT_FOUND
  | BOOK_NOT_FOUND
  | LOAN_NOT_FOUND
  | COPY_NOT_AVAILABLE
  | COPY_NOT_LOANED
  | ORIGINAL_ALREADY_BORROWED
  | ORIGINAL_NOT_BORROWED
  | NOT_NEW_RELEASE
  | BORROW_FORBIDDEN

datatype error =
    ValueError fault
  | KeyError string
  | OverflowError
  | NotImplementedError

definition add_days :: "date \<Rightarrow> int \<Rightarrow> error + date" where
  "add_days d n =
     (if MINORDINAL \<le> d + n \<and> d + n \<le> MAXORDINAL then Inr (d + n) else Inl OverflowError)"

subsection \<open>Domain entities\<close>

datatype CopyStatus = IN_LIBRARY | LOANED | RESERVED | LATE | REPAIR

record Author =
  fullName :: string
  birthDate :: string

record Book =
  id_Book :: string
  title :: string
  year :: int
  author :: Author
  edition :: string
  isNewRelease :: bool

record Loan =
  copyId :: string
  bookId :: string
  readerId :: string
  start :: date
  due :: date
  returned :: "date option"

definition late_days :: "Loan \<Rightarrow> int" where
  "late_days L =
     (case returned L of
        None \<Rightarrow> 0
      | Some r \<Rightarrow> if r > due L then r - due L else 0)"

record Copy =
  id_Copy :: string
  bookId_Copy :: string
  status :: CopyStatus

record Reader =
  id_Reader :: string
  email :: string
  activeBanUntil :: "date option"
  activeLoanIds :: "string list"

definition can_borrow :: "Reader \<Rightarrow> date \<Rightarrow> bool" where
  "can_borrow r today =
     (let banned = (case activeBanUntil r of None \<Rightarrow> False | Some b \<Rightarrow> today \<le> b)
      in (\<not> banned) \<and> length (activeLoanIds r) < 3)"

subsection \<open>Notifications\<close>

text \<open>
  The two gateway classes of the source. \<open>send_email\<close> of the base class raises
  \<open>NotImplementedError\<close>; the console gateway prints one line, modelled by appending it
  to the standard output.
\<close>

datatype NotificationGateway = NotificationGateway_base | ConsoleEmailGateway

definition console_line :: "string \<Rightarrow> string \<Rightarrow> string \<Rightarrow> string" where
  "console_line to subject body =
     ''[EMAIL] To: '' @ to @ '' | '' @ subject @ '' | '' @ body"

fun send_email ::
  "NotificationGateway \<Rightarrow> string \<Rightarrow> string \<Rightarrow> string \<Rightarrow> string list
     \<Rightarrow> (error + unit) \<times> string list" where
  "send_email NotificationGateway_base to subject body out = (Inl NotImplementedError, out)"
| "send_email ConsoleEmailGateway to subject body out =
     (Inr (), out @ [console_line to subject body])"

record BioAlert =
  subs :: "string \<rightharpoonup> string dlist"
  gateway :: "NotificationGateway option"

definition new_BioAlert :: BioAlert where
  "new_BioAlert = \<lparr>subs = Map.empty, gateway = None\<rparr>"


definition subscribers :: "BioAlert \<Rightarrow> string \<Rightarrow> string dlist" where
  "subscribers self bookId' = (case subs self bookId' of None \<Rightarrow> Dlist.empty | Some s \<Rightarrow> s)"


text \<open>The body of the \<open>for rid in ids\<close> loop: the e-mail lookup is evaluated first, then
  the message is handed to the gateway; an exception of either ends the loop.\<close>

fun notify_loop ::
  "NotificationGateway \<Rightarrow> (string \<Rightarrow> error + string) \<Rightarrow> string \<Rightarrow> string list
     \<Rightarrow> string list \<Rightarrow> (error + unit) \<times> string list" where
  "notify_loop g get_email_by_reader title' [] out = (Inr (), out)"
| "notify_loop g get_email_by_reader title' (rid # rids) out =
     (case get_email_by_reader rid of
        Inl e \<Rightarrow> (Inl e, out)
      | Inr to \<Rightarrow>
          (case send_email g to (''Disponible: '' @ title') ''Ya puedes solicitarlo'' out of
             (Inl e, out') \<Rightarrow> (Inl e, out')
           | (Inr u, out') \<Rightarrow> notify_loop g get_email_by_reader title' rids out'))"

definition notify_available ::
  "BioAlert \<Rightarrow> string list \<Rightarrow> string \<Rightarrow> (string \<Rightarrow> error + string)
     \<Rightarrow> (string \<Rightarrow> error + string) \<Rightarrow> (error + unit) \<times> BioAlert \<times> string list" where
  "notify_available self out bookId' get_email_by_reader get_book_title =
     (case gateway self of
        None \<Rightarrow> (Inr (), self, out)
      | Some g \<Rightarrow>
          (let ids = subscribers self bookId' in
           case get_book_title bookId' of
             Inl e \<Rightarrow> (Inl e, self, out)
           | Inr title' \<Rightarrow>
               (case notify_loop g get_email_by_reader title' (list_of_dlist ids) out of
                  (res, out') \<Rightarrow> (res, self, out'))))"

definition reset :: "BioAlert \<Rightarrow> BioAlert" where
  "reset self = self\<lparr>subs := Map.empty, gateway := None\<rparr>"

subsection \<open>The in-memory store and the process state\<close>

record MemoryDb =
  books :: "string \<rightharpoonup> Book"
  copies :: "string \<rightharpoonup> Copy"
  readers :: "string \<rightharpoonup> Reader"
  loans :: "(string \<times> Loan) list"
  newReleaseBorrowed :: "string set"

text \<open>
  What an operation of the service can read or write: the store it was constructed
  with, the class attribute \<open>BioAlert._instance\<close>, the standard output, and the date that
  \<open>date.today()\<close> returns at the time of the call.
\<close>

record World =
  db :: MemoryDb
  instance_cls :: "BioAlert option"
  stdout :: "string list"
  clock :: date

definition BioAlert_instance :: "World \<Rightarrow> BioAlert \<times> World" where
  "BioAlert_instance w =
     (case instance_cls w of
        None \<Rightarrow> (new_BioAlert, w\<lparr>instance_cls := Some new_BioAlert\<rparr>)
      | Some a \<Rightarrow> (a, w))"

subsection \<open>Loan identifiers\<close>

definition digit :: "nat \<Rightarrow> char" where
  "digit d = ''0123456789'' ! d"

function str_nat :: "nat \<Rightarrow> string" where
  "str_nat n = (if n < 10 then [digit n] else str_nat (n div 10) @ [digit (n mod 10)])"
  by pat_completeness auto
termination
  by (relation "measure id") auto

declare str_nat.simps [simp del]

definition next_loan_id :: "(string \<times> Loan) list \<Rightarrow> string" where
  "next_loan_id ls = ''L'' @ str_nat (length ls + 1)"

subsection \<open>The lending service\<close>

definition today_or :: "World \<Rightarrow> date option \<Rightarrow> date" where
  "today_or w today = (case today of Some d \<Rightarrow> d | None \<Rightarrow> clock w)"

definition borrow_copy ::
  "World \<Rightarrow> string \<Rightarrow> string \<Rightarrow> date option \<Rightarrow> (error + string) \<times> World" where
  "borrow_copy w copyId' readerId' today0 =
     (let today = today_or w today0 in
      case copies (db w) copyId' of
        None \<Rightarrow> (Inl (ValueError COPY_NOT_FOUND), w)
      | Some c \<Rightarrow>
      case readers (db w) readerId' of
        None \<Rightarrow> (Inl (ValueError READER_NOT_FOUND), w)
      | Some r \<Rightarrow>
          if \<not> can_borrow r today then (Inl (ValueError BORROW_FORBIDDEN), w)
          else if status c \<noteq> IN_LIBRARY then (Inl (ValueError COPY_NOT_AVAILABLE), w)
          else
            (case add_days today 30 of
               Inl e \<Rightarrow> (Inl e, w)
             | Inr d \<Rightarrow>
                 (let loan = \<lparr>copyId = copyId', bookId = bookId_Copy c, readerId = readerId',
                              start = today, due = d, returned = None\<rparr>;
                      loanId = next_loan_id (loans (db w))
                  in (Inr loanId,
                      w\<lparr>db := (db w)
                         \<lparr>loans := AList.update loanId loan (loans (db w)),
                          copies := (copies (db w))(copyId' \<mapsto> c\<lparr>status := LOANED\<rparr>),
                          readers := (readers (db w))
                            (readerId' \<mapsto> r\<lparr>activeLoanIds := activeLoanIds r @ [loanId]\<rparr>)\<rparr>\<rparr>))))"

definition borrow_original_new_release ::
  "World \<Rightarrow> string \<Rightarrow> string \<Rightarrow> date option \<Rightarrow> (error + string) \<times> World" where
  "borrow_original_new_release w bookId' readerId' today0 =
     (let today = today_or w today0 in
      case books (db w) bookId' of
        None \<Rightarrow> (Inl (ValueError BOOK_NOT_FOUND), w)
      | Some b \<Rightarrow>
      case readers (db w) readerId' of
        None \<Rightarrow> (Inl (ValueError READER_NOT_FOUND), w)
      | Some r \<Rightarrow>
          if \<not> isNewRelease b then (Inl (ValueError NOT_NEW_RELEASE), w)
          else if \<not> can_borrow r today then (Inl (ValueError BORROW_FORBIDDEN), w)
          else if bookId' \<in> newReleaseBorrowed (db w)
          then (Inl (ValueError ORIGINAL_ALREADY_BORROWED), w)
          else
            (case add_days today 30 of
               Inl e \<Rightarrow> (Inl e, w)
             | Inr d \<Rightarrow>
                 (let loan = \<lparr>copyId = [], bookId = bookId', readerId = readerId',
                              start = today, due = d, returned = None\<rparr>;
                      loanId = next_loan_id (loans (db w))
                  in (Inr loanId,
                      w\<lparr>db := (db w)
                         \<lparr>loans := AList.update loanId loan (loans (db w)),
                          newReleaseBorrowed := insert bookId' (newReleaseBorrowed (db w)),
                          readers := (readers (db w))
                            (readerId' \<mapsto> r\<lparr>activeLoanIds := activeLoanIds r @ [loanId]\<rparr>)\<rparr>\<rparr>))))"

text \<open>The two search loops over \<open>self.db.loans.items()\<close>: the key of the first entry, in
  insertion order, that satisfies the test.\<close>

fun find_copy_loan :: "(string \<times> Loan) list \<Rightarrow> string \<Rightarrow> string option" where
  "find_copy_loan [] copyId' = None"
| "find_copy_loan ((k, L) # rest) copyId' =
     (if copyId L = copyId' \<and> returned L = None then Some k
      else find_copy_loan rest copyId')"

fun find_original_loan :: "(string \<times> Loan) list \<Rightarrow> string \<Rightarrow> string \<Rightarrow> string option" where
  "find_original_loan [] bookId' readerId' = None"
| "find_original_loan ((k, L) # rest) bookId' readerId' =
     (if bookId L = bookId' \<and> readerId L = readerId' \<and> copyId L = [] \<and> returned L = None
      then Some k
      else find_original_loan rest bookId' readerId')"

text \<open>The two lookups that the service passes to the notifier.\<close>

definition email_of :: "MemoryDb \<Rightarrow> string \<Rightarrow> error + string" where
  "email_of d rid = (case readers d rid of None \<Rightarrow> Inl (KeyError rid) | Some r \<Rightarrow> Inr (email r))"

definition title_of :: "MemoryDb \<Rightarrow> string \<Rightarrow> error + string" where
  "title_of d bid = (case books d bid of None \<Rightarrow> Inl (KeyError bid) | Some b \<Rightarrow> Inr (title b))"

definition notify_return :: "World \<Rightarrow> string \<Rightarrow> (error + unit) \<times> World" where
  "notify_return w bookId' =
     (case BioAlert_instance w of
        (a, w1) \<Rightarrow>
          (case notify_available a (stdout w1) bookId' (email_of (db w1)) (title_of (db w1)) of
             (res, a', out') \<Rightarrow> (res, w1\<lparr>instance_cls := Some a', stdout := out'\<rparr>)))"

definition return_copy :: "World \<Rightarrow> string \<Rightarrow> date option \<Rightarrow> (error + unit) \<times> World" where
  "return_copy w copyId' when0 =
     (let when = today_or w when0 in
      case copies (db w) copyId' of
        None \<Rightarrow> (Inl (ValueError COPY_NOT_FOUND), w)
      | Some c \<Rightarrow>
          if status c \<noteq> LOANED \<and> status c \<noteq> LATE then (Inl (ValueError COPY_NOT_LOANED), w)
          else
            (case find_copy_loan (loans (db w)) copyId' of
               None \<Rightarrow> (Inl (ValueError LOAN_NOT_FOUND), w)
             | Some loanId \<Rightarrow>
                 if loanId = [] then (Inl (ValueError LOAN_NOT_FOUND), w)
                 else
                   (case map_of (loans (db w)) loanId of
                      None \<Rightarrow> (Inl (KeyError loanId), w)
                    | Some L \<Rightarrow>
                   (case readers (db w) (readerId L) of
                      None \<Rightarrow> (Inl (KeyError (readerId L)), w)
                    | Some R \<Rightarrow>
                        (let L1 = L\<lparr>returned := Some when\<rparr>;
                             w1 = w\<lparr>db := (db w)\<lparr>loans := AList.update loanId L1 (loans (db w))\<rparr>\<rparr>;
                             late = late_days L1
                         in case (if late > 0
                                  then (case add_days when (2 * late) of
                                          Inl e \<Rightarrow> Inl e
                                        | Inr b \<Rightarrow> Inr (R\<lparr>activeBanUntil := Some b\<rparr>))
                                  else Inr R) of
                              Inl e \<Rightarrow> (Inl e, w1)
                            | Inr R1 \<Rightarrow>
                                (let R2 = R1\<lparr>activeLoanIds :=
                                             filter (\<lambda>x. x \<noteq> loanId) (activeLoanIds R1)\<rparr>;
                                     w2 = w1\<lparr>db := (db w1)
                                            \<lparr>readers := (readers (db w1))(readerId L \<mapsto> R2),
                                             copies := (copies (db w1))
                                               (copyId' \<mapsto> c\<lparr>status := IN_LIBRARY\<rparr>)\<rparr>\<rparr>
                                 in notify_return w2 (bookId L1)))))))"

definition return_original_new_release ::
  "World \<Rightarrow> string \<Rightarrow> string \<Rightarrow> date option \<Rightarrow> (error + unit) \<times> World" where
  "return_original_new_release w bookId' readerId' when0 =
     (let when = today_or w when0 in
      case books (db w) bookId' of
        None \<Rightarrow> (Inl (ValueError BOOK_NOT_FOUND), w)
      | Some b \<Rightarrow>
      case readers (db w) readerId' of
        None \<Rightarrow> (Inl (ValueError READER_NOT_FOUND), w)
      | Some R \<Rightarrow>
          if bookId' \<notin> newReleaseBorrowed (db w)
          then (Inl (ValueError ORIGINAL_NOT_BORROWED), w)
          else
            (case find_original_loan (loans (db w)) bookId' readerId' of
               None \<Rightarrow> (Inl (ValueError LOAN_NOT_FOUND), w)
             | Some loanId \<Rightarrow>
                 if loanId = [] then (Inl (ValueError LOAN_NOT_FOUND), w)
                 else
                   (case map_of (loans (db w)) loanId of
                      None \<Rightarrow> (Inl (KeyError loanId), w)
                    | Some L \<Rightarrow>
                        (let L1 = L\<lparr>returned := Some when\<rparr>;
                             w1 = w\<lparr>db := (db w)\<lparr>loans := AList.update loanId L1 (loans (db w))\<rparr>\<rparr>;
                             late = late_days L1
                         in case (if late > 0
                                  then (case add_days when (2 * late) of
                                          Inl e \<Rightarrow> Inl e
                                        | Inr b \<Rightarrow> Inr (R\<lparr>activeBanUntil := Some b\<rparr>))
                                  else Inr R) of
                              Inl e \<Rightarrow> (Inl e, w1)
                            | Inr R1 \<Rightarrow>
                                (let R2 = R1\<lparr>activeLoanIds :=
                                             filter (\<lambda>x. x \<noteq> loanId) (activeLoanIds R1)\<rparr>;
                                     w2 = w1\<lparr>db := (db w1)
                                            \<lparr>newReleaseBorrowed := newReleaseBorrowed (db w1) - {bookId'},
                                             readers := (readers (db w1))(readerId' \<mapsto> R2)\<rparr>\<rparr>
                                 in notify_return w2 bookId')))))"

section \<open>Auxiliary definitions for the statements\<close>

text \<open>The reader as a return leaves it (lines 202--208 of the source, for a loan \<open>L\<close>
  closed on day \<open>t\<close> without overflow of the ban date): the ban is overwritten when the
  loan is late, and the loan id is filtered out of the active loans.\<close>

definition close_reader :: "Reader \<Rightarrow> Loan \<Rightarrow> string \<Rightarrow> date \<Rightarrow> Reader" where
  "close_reader R L loanId t =
     (let late = late_days (L\<lparr>returned := Some t\<rparr>)
      in R\<lparr>activeBanUntil := (if 0 < late then Some (t + 2 * late) else activeBanUntil R),
           activeLoanIds := filter (\<lambda>x. x \<noteq> loanId) (activeLoanIds R)\<rparr>)"

text \<open>The loan is late and the end of its ban is not a representable date.\<close>

definition ban_overflows :: "Loan \<Rightarrow> date \<Rightarrow> bool" where
  "ban_overflows L t \<longleftrightarrow>
     due L < t \<and> \<not> (MINORDINAL \<le> t + 2 * (t - due L) \<and> t + 2 * (t - due L) \<le> MAXORDINAL)"

definition new_loan :: "string \<Rightarrow> string \<Rightarrow> string \<Rightarrow> date \<Rightarrow> Loan" where
  "new_loan cid bid rid t =
     \<lparr>copyId = cid, bookId = bid, readerId = rid, start = t, due = t + 30, returned = None\<rparr>"


subsection \<open>The stores of the test-suite\<close>

text \<open>The store that \<open>seed\<close> of \<open>tests/test_biblioteca.py\<close> builds: books \<open>B1\<close> and \<open>B2\<close> (a
  new release), copies \<open>C1\<close> and \<open>C2\<close> of \<open>B1\<close>, readers \<open>R1\<close> and \<open>R2\<close>. The clock shows
  2025-10-01, day 739525.\<close>

definition seed_db :: MemoryDb where
  "seed_db =
     \<lparr>books =
        [''B1'' \<mapsto> \<lparr>id_Book = ''B1'', title = ''Software Engineering'', year = 2020,
                     author = \<lparr>fullName = ''Ian Sommerville'', birthDate = ''1951-08-23''\<rparr>,
                     edition = ''10th'', isNewRelease = False\<rparr>,
         ''B2'' \<mapsto> \<lparr>id_Book = ''B2'', title = ''Clean C++ (New Release)'', year = 2025,
                     author = \<lparr>fullName = ''Some Author'', birthDate = ''1980-01-01''\<rparr>,
                     edition = ''1st'', isNewRelease = True\<rparr>],
      copies =
        [''C1'' \<mapsto> \<lparr>id_Copy = ''C1'', bookId_Copy = ''B1'', status = IN_LIBRARY\<rparr>,
         ''C2'' \<mapsto> \<lparr>id_Copy = ''C2'', bookId_Copy = ''B1'', status = IN_LIBRARY\<rparr>],
      readers =
        [''R1'' \<mapsto> \<lparr>id_Reader = ''R1'', email = ''alice@example.com'',
                     activeBanUntil = None, activeLoanIds = []\<rparr>,
         ''R2'' \<mapsto> \<lparr>id_Reader = ''R2'', email = ''bob@example.com'',
                     activeBanUntil = None, activeLoanIds = []\<rparr>],
      loans = [],
      newReleaseBorrowed = {}\<rparr>"

definition seed :: World where
  "seed = \<lparr>db = seed_db, instance_cls = None, stdout = [], clock = 739525\<rparr>"

text \<open>The seed after \<open>R1\<close> has borrowed \<open>C1\<close> on 2025-10-01.\<close>

definition lent :: World where
  "lent = snd (borrow_copy seed ''C1'' ''R1'' (Some 739525))"

text \<open>The same with \<open>R2\<close> banned until 2025-10-01, as \<open>test_borrow_prohibido_si_baneado\<close>
  bans a reader.\<close>

definition lent_R2_banned :: World where
  "lent_R2_banned =
     lent\<lparr>db := (db lent)\<lparr>readers := (readers (db lent))
       (''R2'' \<mapsto> \<lparr>id_Reader = ''R2'', email = ''bob@example.com'',
                  activeBanUntil = Some 739525, activeLoanIds = []\<rparr>)\<rparr>\<rparr>"


text \<open>The store \<open>lent\<close> with \<open>R1\<close> already banned until day 739600, by an earlier return.\<close>

definition lent_R1_banned :: World where
  "lent_R1_banned =
     lent\<lparr>db := (db lent)\<lparr>readers := (readers (db lent))
       (''R1'' \<mapsto> \<lparr>id_Reader = ''R1'', email = ''alice@example.com'',
                  activeBanUntil = Some 739600, activeLoanIds = [''L1'']\<rparr>)\<rparr>\<rparr>"

text \<open>The seed after \<open>R2\<close>, banned until day 739500, has borrowed the original of the new
  release \<open>B2\<close> on 2025-10-01.\<close>

definition original_lent :: World where
  "original_lent =
     snd (borrow_original_new_release
       (seed\<lparr>db := seed_db\<lparr>readers := (readers seed_db)
          (''R2'' \<mapsto> \<lparr>id_Reader = ''R2'', email = ''bob@example.com'',
                     activeBanUntil = Some 739500, activeLoanIds = []\<rparr>)\<rparr>\<rparr>)
       ''B2'' ''R2'' (Some 739525))"


subsection \<open>Sequences of calls\<close>

text \<open>A call of the service, and the state it leaves behind whatever its outcome. A
  sequence of calls carries, with every call, the date the clock shows when it is made.\<close>

datatype call =
    BorrowCopy string string "date option"
  | BorrowOriginalNewRelease string string "date option"
  | ReturnCopy string "date option"
  | ReturnOriginalNewRelease string string "date option"

fun exec :: "World \<Rightarrow> call \<Rightarrow> World" where
  "exec w (BorrowCopy c r t) = snd (borrow_copy w c r t)"
| "exec w (BorrowOriginalNewRelease b r t) = snd (borrow_original_new_release w b r t)"
| "exec w (ReturnCopy c t) = snd (return_copy w c t)"
| "exec w (ReturnOriginalNewRelease b r t) = snd (return_original_new_release w b r t)"

fun run :: "World \<Rightarrow> (date \<times> call) list \<Rightarrow> World" where
  "run w [] = w"
| "run w ((now, c) # cs) = run (exec (w\<lparr>clock := now\<rparr>) c) cs"

text \<open>No reader has more than three active loans.\<close>

definition loan_limit :: "MemoryDb \<Rightarrow> bool" where
  "loan_limit d \<longleftrightarrow> (\<forall>rid R. readers d rid = Some R \<longrightarrow> length (activeLoanIds R) \<le> 3)"

text \<open>The open loans of the original of a book: the sentinel \<open>''''\<close> as copy id, and no
  return date.\<close>

definition open_originals :: "(string \<times> Loan) list \<Rightarrow> string \<Rightarrow> (string \<times> Loan) list" where
  "open_originals ls b =
     filter (\<lambda>(k, L). bookId L = b \<and> copyId L = [] \<and> returned L = None) ls"

text \<open>The loans are a dictionary (no key twice), the sentinel is not the id of a copy,
  and every book has at most one open loan of its original, and is in the set of
  borrowed originals when it has one.\<close>

definition original_inv :: "MemoryDb \<Rightarrow> bool" where
  "original_inv d \<longleftrightarrow>
     distinct (map fst (loans d)) \<and> copies d [] = None \<and>
     (\<forall>b. length (open_originals (loans d) b) \<le> 1 \<and>
          (open_originals (loans d) b \<noteq> [] \<longrightarrow> b \<in> newReleaseBorrowed d))"

text \<open>The store of \<open>test_limite_3_prestamos\<close>: the seed with the copies \<open>C3\<close> and \<open>C4\<close> added,
  and the state after \<open>R1\<close> has borrowed \<open>C1\<close>, \<open>C2\<close> and \<open>C3\<close> on 2025-10-01.\<close>

definition seed4 :: World where
  "seed4 =
     seed\<lparr>db := seed_db\<lparr>copies := (copies seed_db)
       (''C3'' \<mapsto> \<lparr>id_Copy = ''C3'', bookId_Copy = ''B1'', status = IN_LIBRARY\<rparr>,
        ''C4'' \<mapsto> \<lparr>id_Copy = ''C4'', bookId_Copy = ''B1'', status = IN_LIBRARY\<rparr>)\<rparr>\<rparr>"

definition three_borrows :: "(date \<times> call) list" where
  "three_borrows =
     [(739525, BorrowCopy ''C1'' ''R1'' (Some 739525)),
      (739525, BorrowCopy ''C2'' ''R1'' (Some 739525)),
      (739525, BorrowCopy ''C3'' ''R1'' (Some 739525))]"

definition at_limit :: World where
  "at_limit = run seed4 three_borrows"

text \<open>The store \<open>original_lent\<close>, where \<open>R2\<close> holds the original of \<open>B2\<close>, with \<open>R1\<close> banned
  until 2025-10-01.\<close>

definition original_lent_R1_banned :: World where
  "original_lent_R1_banned =
     original_lent\<lparr>db := (db original_lent)\<lparr>readers := (readers (db original_lent))
       (''R1'' \<mapsto> \<lparr>id_Reader = ''R1'', email = ''alice@example.com'',
                  activeBanUntil = Some 739525, activeLoanIds = []\<rparr>)\<rparr>\<rparr>"

text \<open>The calls of \<open>test_new_release_original_exclusivo\<close>.\<close>

definition exclusive_calls :: "(date \<times> call) list" where
  "exclusive_calls =
     [(739525, BorrowOriginalNewRelease ''B2'' ''R2'' (Some 739525)),
      (739525, BorrowOriginalNewRelease ''B2'' ''R1'' (Some 739525)),
      (739534, ReturnOriginalNewRelease ''B2'' ''R2'' (Some 739534)),
      (739534, BorrowOriginalNewRelease ''B2'' ''R1'' (Some 739525))]"

section \<open>Properties\<close>

subsection \<open>Notification never touches the store\<close>

lemma db_notify_return: "notify_return w b = (res, w') \<Longrightarrow> db w' = db w"
  by (auto simp add: notify_return_def BioAlert_instance_def split: option.splits prod.splits)

lemma notify_loop_not_ValueError:
  "notify_loop g (email_of d) t ids out \<noteq> (Inl (ValueError f), out')"
proof (induction ids arbitrary: out)
  case Nil
  then show ?case by simp
next
  case (Cons rid ids)
  then show ?case
    by (cases g) (auto simp: email_of_def split: option.splits)
qed

lemma notify_return_not_ValueError: "notify_return w b \<noteq> (Inl (ValueError f), w')"
  by (auto simp add: notify_return_def BioAlert_instance_def notify_available_def title_of_def
      Let_def notify_loop_not_ValueError split: option.splits prod.splits sum.splits)

subsection \<open>Dates and lateness\<close>

lemma add_days_Inr:
  "add_days d n = Inr x \<Longrightarrow> x = d + n \<and> MINORDINAL \<le> d + n \<and> d + n \<le> MAXORDINAL"
  by (auto simp: add_days_def split: if_splits)

lemma late_days_returned:
  "late_days (L\<lparr>returned := Some t\<rparr>) = (if due L < t then t - due L else 0)"
  by (simp add: late_days_def)

lemma close_reader_ban:
  "activeBanUntil (close_reader R L loanId t) =
     (if 0 < late_days (L\<lparr>returned := Some t\<rparr>)
      then Some (t + 2 * late_days (L\<lparr>returned := Some t\<rparr>)) else activeBanUntil R)"
  by (simp add: close_reader_def Let_def)

lemma close_reader_on_time:
  "late_days (L\<lparr>returned := Some t\<rparr>) = 0 \<Longrightarrow>
   close_reader R L loanId t = R\<lparr>activeLoanIds := filter (\<lambda>x. x \<noteq> loanId) (activeLoanIds R)\<rparr>"
  by (simp add: close_reader_def Let_def)

lemma length_close_reader:
  "length (activeLoanIds (close_reader R L loanId t)) \<le> length (activeLoanIds R)"
  by (simp add: close_reader_def Let_def)

subsection \<open>The borrow operations\<close>

lemma borrow_copy_raises: "borrow_copy w cid rid t0 = (Inl e, w') \<Longrightarrow> w' = w"
  by (auto simp: borrow_copy_def Let_def split: option.splits if_splits sum.splits)

lemma borrow_original_raises:
  "borrow_original_new_release w bid rid t0 = (Inl e, w') \<Longrightarrow> w' = w"
  by (auto simp: borrow_original_new_release_def Let_def
      split: option.splits if_splits sum.splits)

lemma borrow_copy_success:
  assumes "borrow_copy w cid rid t0 = (Inr loanId, w')"
  shows "\<exists>c r. copies (db w) cid = Some c \<and> readers (db w) rid = Some r \<and>
           can_borrow r (today_or w t0) \<and> status c = IN_LIBRARY \<and>
           today_or w t0 + 30 \<le> MAXORDINAL \<and>
           loanId = next_loan_id (loans (db w)) \<and>
           w' = w\<lparr>db := (db w)
                 \<lparr>loans := AList.update loanId (new_loan cid (bookId_Copy c) rid (today_or w t0))
                             (loans (db w)),
                  copies := (copies (db w))(cid \<mapsto> c\<lparr>status := LOANED\<rparr>),
                  readers := (readers (db w))
                     (rid \<mapsto> r\<lparr>activeLoanIds := activeLoanIds r @ [loanId]\<rparr>)\<rparr>\<rparr>"
  using assms
  by (auto simp: borrow_copy_def Let_def new_loan_def split: option.splits if_splits sum.splits
      dest!: add_days_Inr)

lemma borrow_original_success:
  assumes "borrow_original_new_release w bid rid t0 = (Inr loanId, w')"
  shows "\<exists>b r. books (db w) bid = Some b \<and> readers (db w) rid = Some r \<and> isNewRelease b \<and>
           can_borrow r (today_or w t0) \<and> bid \<notin> newReleaseBorrowed (db w) \<and>
           today_or w t0 + 30 \<le> MAXORDINAL \<and>
           loanId = next_loan_id (loans (db w)) \<and>
           w' = w\<lparr>db := (db w)
                 \<lparr>loans := AList.update loanId (new_loan [] bid rid (today_or w t0)) (loans (db w)),
                  newReleaseBorrowed := insert bid (newReleaseBorrowed (db w)),
                  readers := (readers (db w))
                     (rid \<mapsto> r\<lparr>activeLoanIds := activeLoanIds r @ [loanId]\<rparr>)\<rparr>\<rparr>"
  using assms
  by (auto simp: borrow_original_new_release_def Let_def new_loan_def
      split: option.splits if_splits sum.splits dest!: add_days_Inr)

subsection \<open>The return operations\<close>

lemma return_copy_ValueError: "return_copy w cid t0 = (Inl (ValueError f), w') \<Longrightarrow> w' = w"
  by (auto simp: return_copy_def Let_def notify_return_not_ValueError add_days_def
      split: option.splits if_splits sum.splits)

lemma return_original_ValueError:
  "return_original_new_release w bid rid t0 = (Inl (ValueError f), w') \<Longrightarrow> w' = w"
  by (auto simp: return_original_new_release_def Let_def notify_return_not_ValueError add_days_def
      split: option.splits if_splits sum.splits)

text \<open>Once the checks have passed, a return either stops at the overflow of the ban date,
  with only the loan closed, or goes on to the notification with the store fully updated.\<close>

lemma return_copy_found:
  assumes "copies (db w) cid = Some c" "status c = LOANED \<or> status c = LATE"
    "find_copy_loan (loans (db w)) cid = Some loanId" "loanId \<noteq> []"
    "map_of (loans (db w)) loanId = Some L" "readers (db w) (readerId L) = Some R"
  shows "return_copy w cid t0 =
    (if ban_overflows L (today_or w t0)
     then (Inl OverflowError,
           w\<lparr>db := (db w)\<lparr>loans :=
               AList.update loanId (L\<lparr>returned := Some (today_or w t0)\<rparr>) (loans (db w))\<rparr>\<rparr>)
     else notify_return
           (w\<lparr>db := (db w)
               \<lparr>loans := AList.update loanId (L\<lparr>returned := Some (today_or w t0)\<rparr>) (loans (db w)),
                readers := (readers (db w))(readerId L \<mapsto> close_reader R L loanId (today_or w t0)),
                copies := (copies (db w))(cid \<mapsto> c\<lparr>status := IN_LIBRARY\<rparr>)\<rparr>\<rparr>)
           (bookId L))"
  using assms
  by (auto simp: return_copy_def Let_def late_days_returned close_reader_def ban_overflows_def
      add_days_def)

lemma return_copy_success:
  assumes "return_copy w cid t0 = (Inr (), w')"
  shows "\<exists>c loanId L R.
    copies (db w) cid = Some c \<and>
    (status c = LOANED \<or> status c = LATE) \<and>
    find_copy_loan (loans (db w)) cid = Some loanId \<and>
    loanId \<noteq> [] \<and>
    map_of (loans (db w)) loanId = Some L \<and>
    readers (db w) (readerId L) = Some R \<and>
    \<not> ban_overflows L (today_or w t0) \<and>
    db w' = (db w)
       \<lparr>loans := AList.update loanId (L\<lparr>returned := Some (today_or w t0)\<rparr>) (loans (db w)),
        readers := (readers (db w))(readerId L \<mapsto> close_reader R L loanId (today_or w t0)),
        copies := (copies (db w))(cid \<mapsto> c\<lparr>status := IN_LIBRARY\<rparr>)\<rparr>"
proof -
  from assms obtain c where c: "copies (db w) cid = Some c"
    by (cases "copies (db w) cid") (auto simp: return_copy_def Let_def)
  from assms c have st: "status c = LOANED \<or> status c = LATE"
    by (auto simp: return_copy_def Let_def split: if_splits)
  from assms c st obtain loanId where f: "find_copy_loan (loans (db w)) cid = Some loanId"
    by (cases "find_copy_loan (loans (db w)) cid") (auto simp: return_copy_def Let_def)
  from assms c st f have ne: "loanId \<noteq> []"
    by (auto simp: return_copy_def Let_def split: if_splits)
  from assms c st f ne obtain L where L: "map_of (loans (db w)) loanId = Some L"
    by (cases "map_of (loans (db w)) loanId") (auto simp: return_copy_def Let_def)
  from assms c st f ne L obtain R where R: "readers (db w) (readerId L) = Some R"
    by (cases "readers (db w) (readerId L)") (auto simp: return_copy_def Let_def)
  note eq = return_copy_found [OF c st f ne L R, of t0]
  from assms eq have nov: "\<not> ban_overflows L (today_or w t0)"
    by (auto split: if_splits)
  with assms eq have "db w' = (db w)
       \<lparr>loans := AList.update loanId (L\<lparr>returned := Some (today_or w t0)\<rparr>) (loans (db w)),
        readers := (readers (db w))(readerId L \<mapsto> close_reader R L loanId (today_or w t0)),
        copies := (copies (db w))(cid \<mapsto> c\<lparr>status := IN_LIBRARY\<rparr>)\<rparr>"
    by (auto dest: db_notify_return)
  with c st f ne L R nov show ?thesis by blast
qed

lemma return_original_found:
  assumes "books (db w) bid = Some b" "readers (db w) rid = Some R"
    "bid \<in> newReleaseBorrowed (db w)"
    "find_original_loan (loans (db w)) bid rid = Some loanId" "loanId \<noteq> []"
    "map_of (loans (db w)) loanId = Some L"
  shows "return_original_new_release w bid rid t0 =
    (if ban_overflows L (today_or w t0)
     then (Inl OverflowError,
           w\<lparr>db := (db w)\<lparr>loans :=
               AList.update loanId (L\<lparr>returned := Some (today_or w t0)\<rparr>) (loans (db w))\<rparr>\<rparr>)
     else notify_return
           (w\<lparr>db := (db w)
               \<lparr>loans := AList.update loanId (L\<lparr>returned := Some (today_or w t0)\<rparr>) (loans (db w)),
                newReleaseBorrowed := newReleaseBorrowed (db w) - {bid},
                readers := (readers (db w))(rid \<mapsto> close_reader R L loanId (today_or w t0))\<rparr>\<rparr>)
           bid)"
  using assms
  by (auto simp: return_original_new_release_def Let_def late_days_returned close_reader_def
      ban_overflows_def add_days_def)

lemma return_original_success:
  assumes "return_original_new_release w bid rid t0 = (Inr (), w')"
  shows "\<exists>b loanId L R.
    books (db w) bid = Some b \<and>
    readers (db w) rid = Some R \<and>
    bid \<in> newReleaseBorrowed (db w) \<and>
    find_original_loan (loans (db w)) bid rid = Some loanId \<and>
    loanId \<noteq> [] \<and>
    map_of (loans (db w)) loanId = Some L \<and>
    \<not> ban_overflows L (today_or w t0) \<and>
    db w' = (db w)
       \<lparr>loans := AList.update loanId (L\<lparr>returned := Some (today_or w t0)\<rparr>) (loans (db w)),
        newReleaseBorrowed := newReleaseBorrowed (db w) - {bid},
        readers := (readers (db w))(rid \<mapsto> close_reader R L loanId (today_or w t0))\<rparr>"
proof -
  from assms obtain b where b: "books (db w) bid = Some b"
    by (cases "books (db w) bid") (auto simp: return_original_new_release_def Let_def)
  from assms b obtain R where R: "readers (db w) rid = Some R"
    by (cases "readers (db w) rid") (auto simp: return_original_new_release_def Let_def)
  from assms b R have m: "bid \<in> newReleaseBorrowed (db w)"
    by (auto simp: return_original_new_release_def Let_def split: if_splits)
  from assms b R m obtain loanId where f: "find_original_loan (loans (db w)) bid rid = Some loanId"
    by (cases "find_original_loan (loans (db w)) bid rid")
       (auto simp: return_original_new_release_def Let_def)
  from assms b R m f have ne: "loanId \<noteq> []"
    by (auto simp: return_original_new_release_def Let_def split: if_splits)
  from assms b R m f ne obtain L where L: "map_of (loans (db w)) loanId = Some L"
    by (cases "map_of (loans (db w)) loanId") (auto simp: return_original_new_release_def Let_def)
  note eq = return_original_found [OF b R m f ne L, of t0]
  from assms eq have nov: "\<not> ban_overflows L (today_or w t0)"
    by (auto split: if_splits)
  with assms eq have "db w' = (db w)
       \<lparr>loans := AList.update loanId (L\<lparr>returned := Some (today_or w t0)\<rparr>) (loans (db w)),
        newReleaseBorrowed := newReleaseBorrowed (db w) - {bid},
        readers := (readers (db w))(rid \<mapsto> close_reader R L loanId (today_or w t0))\<rparr>"
    by (auto dest: db_notify_return)
  with b R m f ne L nov show ?thesis by blast
qed

lemma return_copy_db:
  assumes "fst (return_copy w cid (Some t)) = Inr ()"
    "copies (db w) cid = Some c"
    "find_copy_loan (loans (db w)) cid = Some loanId"
    "map_of (loans (db w)) loanId = Some L" "readers (db w) (readerId L) = Some R"
  shows "db (snd (return_copy w cid (Some t))) = (db w)
       \<lparr>loans := AList.update loanId (L\<lparr>returned := Some t\<rparr>) (loans (db w)),
        readers := (readers (db w))(readerId L \<mapsto> close_reader R L loanId t),
        copies := (copies (db w))(cid \<mapsto> c\<lparr>status := IN_LIBRARY\<rparr>)\<rparr>"
proof -
  from assms(1) have "return_copy w cid (Some t) = (Inr (), snd (return_copy w cid (Some t)))"
    by (metis prod.collapse)
  from return_copy_success [OF this] assms(2-) show ?thesis
    by (auto simp: today_or_def)
qed

lemma return_original_db:
  assumes "fst (return_original_new_release w bid rid (Some t)) = Inr ()"
    "find_original_loan (loans (db w)) bid rid = Some loanId"
    "map_of (loans (db w)) loanId = Some L" "readers (db w) rid = Some R"
  shows "db (snd (return_original_new_release w bid rid (Some t))) = (db w)
       \<lparr>loans := AList.update loanId (L\<lparr>returned := Some t\<rparr>) (loans (db w)),
        newReleaseBorrowed := newReleaseBorrowed (db w) - {bid},
        readers := (readers (db w))(rid \<mapsto> close_reader R L loanId t)\<rparr>"
proof -
  from assms(1) have "return_original_new_release w bid rid (Some t) =
      (Inr (), snd (return_original_new_release w bid rid (Some t)))"
    by (metis prod.collapse)
  from return_original_success [OF this] assms(2-) show ?thesis
    by (auto simp: today_or_def)
qed

subsection \<open>Loan identifiers are fresh\<close>

lemma str_nat_small: "n < 10 \<Longrightarrow> str_nat n = [digit n]"
  by (subst str_nat.simps) simp







subsection \<open>Evaluating the test stores\<close>

lemmas eval_simps = today_or_def Let_def seed_def seed_db_def
  late_days_def add_days_def MINORDINAL_def MAXORDINAL_def can_borrow_def notify_return_def
  BioAlert_instance_def notify_available_def new_BioAlert_def next_loan_id_def
  str_nat_small digit_def

lemma borrow_seed:
  "borrow_copy seed ''C1'' ''R1'' (Some 739525) =
    (Inr ''L1'',
     seed\<lparr>db := seed_db
       \<lparr>loans := [(''L1'', \<lparr>copyId = ''C1'', bookId = ''B1'', readerId = ''R1'',
                    start = 739525, due = 739555, returned = None\<rparr>)],
        copies := (copies seed_db)
          (''C1'' \<mapsto> \<lparr>id_Copy = ''C1'', bookId_Copy = ''B1'', status = LOANED\<rparr>),
        readers := (readers seed_db)
          (''R1'' \<mapsto> \<lparr>id_Reader = ''R1'', email = ''alice@example.com'',
                     activeBanUntil = None, activeLoanIds = [''L1'']\<rparr>)\<rparr>\<rparr>)"
  by (simp add: borrow_copy_def eval_simps)

lemma lent_eq:
  "lent = seed\<lparr>db := seed_db
       \<lparr>loans := [(''L1'', \<lparr>copyId = ''C1'', bookId = ''B1'', readerId = ''R1'',
                    start = 739525, due = 739555, returned = None\<rparr>)],
        copies := (copies seed_db)
          (''C1'' \<mapsto> \<lparr>id_Copy = ''C1'', bookId_Copy = ''B1'', status = LOANED\<rparr>),
        readers := (readers seed_db)
          (''R1'' \<mapsto> \<lparr>id_Reader = ''R1'', email = ''alice@example.com'',
                     activeBanUntil = None, activeLoanIds = [''L1'']\<rparr>)\<rparr>\<rparr>"
  by (simp add: lent_def borrow_seed)

lemma lent_fields:
  "copies (db lent) ''C1'' = Some \<lparr>id_Copy = ''C1'', bookId_Copy = ''B1'', status = LOANED\<rparr>"
  "find_copy_loan (loans (db lent)) ''C1'' = Some ''L1''"
  "map_of (loans (db lent)) ''L1'' = Some \<lparr>copyId = ''C1'', bookId = ''B1'',
         readerId = ''R1'', start = 739525, due = 739555, returned = None\<rparr>"
  "readers (db lent) ''R1'' = Some \<lparr>id_Reader = ''R1'', email = ''alice@example.com'',
                     activeBanUntil = None, activeLoanIds = [''L1'']\<rparr>"
  by (simp_all add: lent_eq seed_def seed_db_def)

section \<open>The claims\<close>

text \<open>
  C1. A return operation that raises one of its named faults (a \<open>ValueError\<close>), and a
  borrow operation that raises at all, leaves the state exactly as it was before the
  call: the store, and with it the notifier and the output.
\<close>

theorem faults_leave_store_unchanged:
  "(\<forall>f. fst (return_copy w copyId' t1) = Inl (ValueError f)
        \<longrightarrow> snd (return_copy w copyId' t1) = w) \<and>
   (\<forall>f. fst (return_original_new_release w bookId' readerId' t2) = Inl (ValueError f)
        \<longrightarrow> snd (return_original_new_release w bookId' readerId' t2) = w) \<and>
   (\<forall>e. fst (borrow_copy w copyId' readerId' t3) = Inl e
        \<longrightarrow> snd (borrow_copy w copyId' readerId' t3) = w) \<and>
   (\<forall>e. fst (borrow_original_new_release w bookId' readerId' t4) = Inl e
        \<longrightarrow> snd (borrow_original_new_release w bookId' readerId' t4) = w)"
  by (metis prod.collapse return_copy_ValueError return_original_ValueError
      borrow_copy_raises borrow_original_raises)

theorem faults_leave_store_unchanged_witness:
  "fst (return_copy seed ''C1'' (Some 739525)) = Inl (ValueError COPY_NOT_LOANED) \<and>
   snd (return_copy seed ''C1'' (Some 739525)) = seed \<and>
   fst (return_original_new_release seed ''B2'' ''R1'' (Some 739525))
     = Inl (ValueError ORIGINAL_NOT_BORROWED) \<and>
   snd (return_original_new_release seed ''B2'' ''R1'' (Some 739525)) = seed \<and>
   fst (borrow_copy seed ''C9'' ''R1'' (Some 739525)) = Inl (ValueError COPY_NOT_FOUND) \<and>
   snd (borrow_copy seed ''C9'' ''R1'' (Some 739525)) = seed \<and>
   fst (borrow_original_new_release seed ''B1'' ''R1'' (Some 739525))
     = Inl (ValueError NOT_NEW_RELEASE) \<and>
   snd (borrow_original_new_release seed ''B1'' ''R1'' (Some 739525)) = seed"
proof -
  have a: "fst (return_copy seed ''C1'' (Some 739525)) = Inl (ValueError COPY_NOT_LOANED)"
    by (simp add: return_copy_def eval_simps)
  have b: "fst (return_original_new_release seed ''B2'' ''R1'' (Some 739525))
     = Inl (ValueError ORIGINAL_NOT_BORROWED)"
    by (simp add: return_original_new_release_def eval_simps)
  have c: "fst (borrow_copy seed ''C9'' ''R1'' (Some 739525)) = Inl (ValueError COPY_NOT_FOUND)"
    by (simp add: borrow_copy_def eval_simps)
  have d: "fst (borrow_original_new_release seed ''B1'' ''R1'' (Some 739525))
     = Inl (ValueError NOT_NEW_RELEASE)"
    by (simp add: borrow_original_new_release_def eval_simps)
  from a b c d
    faults_leave_store_unchanged [of seed "''C1''" "Some 739525" "''B2''" "''R1''" "Some 739525"
      "Some 739525" "Some 739525"]
    faults_leave_store_unchanged [of seed "''C9''" "Some 739525" "''B1''" "''R1''" "Some 739525"
      "Some 739525" "Some 739525"]
  show ?thesis by simp
qed

text \<open>
  C2. \<open>can_borrow\<close> is true exactly when the reader has no ban or the date is strictly
  after the end of the ban, and the reader has fewer than three active loans. In
  particular a reader whose ban ends on the date or later cannot borrow, whatever the
  number of active loans.
\<close>

theorem can_borrow_iff:
  "(can_borrow r asOf \<longleftrightarrow>
      (case activeBanUntil r of None \<Rightarrow> True | Some b \<Rightarrow> b < asOf) \<and>
      length (activeLoanIds r) < 3) \<and>
   (\<forall>b. activeBanUntil r = Some b \<and> asOf \<le> b \<longrightarrow> \<not> can_borrow r asOf)"
  by (auto simp: can_borrow_def split: option.splits)

theorem can_borrow_iff_witness:
  "activeLoanIds \<lparr>id_Reader = ''R1'', email = ''alice@example.com'',
       activeBanUntil = Some 739525, activeLoanIds = []\<rparr> = [] \<and>
   \<not> can_borrow \<lparr>id_Reader = ''R1'', email = ''alice@example.com'',
       activeBanUntil = Some 739525, activeLoanIds = []\<rparr> 739525 \<and>
   can_borrow \<lparr>id_Reader = ''R1'', email = ''alice@example.com'',
       activeBanUntil = Some 739525, activeLoanIds = []\<rparr> 739526"
  using can_borrow_iff [of "\<lparr>id_Reader = ''R1'', email = ''alice@example.com'',
       activeBanUntil = Some 739525, activeLoanIds = []\<rparr>" 739525]
    can_borrow_iff [of "\<lparr>id_Reader = ''R1'', email = ''alice@example.com'',
       activeBanUntil = Some 739525, activeLoanIds = []\<rparr>" 739526]
  by simp

text \<open>
  C3. \<open>late_days\<close> is 0 for a loan not yet returned or returned on or before its due
  date, and the difference in days (returned - due) otherwise. A successful return
  (of a copy, or of an original) closing the loan \<open>L0\<close> on day \<open>when\<close> therefore leaves
  the borrower with a ban until \<open>when + 2 * lateDays\<close> when \<open>lateDays > 0\<close>, and with the ban
  the borrower had when the loan is not late.
\<close>

theorem late_days_and_ban_rule:
  "(returned L = None \<longrightarrow> late_days L = 0) \<and>
   (\<forall>r. returned L = Some r \<and> r \<le> due L \<longrightarrow> late_days L = 0) \<and>
   (\<forall>r. returned L = Some r \<and> due L < r \<longrightarrow> late_days L = r - due L) \<and>
   (\<forall>c loanId L0 R.
      fst (return_copy w copyId' (Some when)) = Inr () \<and>
      copies (db w) copyId' = Some c \<and>
      find_copy_loan (loans (db w)) copyId' = Some loanId \<and>
      map_of (loans (db w)) loanId = Some L0 \<and>
      readers (db w) (readerId L0) = Some R \<longrightarrow>
      map_option activeBanUntil
        (readers (db (snd (return_copy w copyId' (Some when)))) (readerId L0)) =
      Some (if 0 < late_days (L0\<lparr>returned := Some when\<rparr>)
            then Some (when + 2 * late_days (L0\<lparr>returned := Some when\<rparr>))
            else activeBanUntil R)) \<and>
   (\<forall>loanId L0 R.
      fst (return_original_new_release w bookId' readerId' (Some when)) = Inr () \<and>
      find_original_loan (loans (db w)) bookId' readerId' = Some loanId \<and>
      map_of (loans (db w)) loanId = Some L0 \<and>
      readers (db w) readerId' = Some R \<longrightarrow>
      map_option activeBanUntil
        (readers (db (snd (return_original_new_release w bookId' readerId' (Some when))))
           readerId') =
      Some (if 0 < late_days (L0\<lparr>returned := Some when\<rparr>)
            then Some (when + 2 * late_days (L0\<lparr>returned := Some when\<rparr>))
            else activeBanUntil R))"
proof -
  have 1: "returned L = None \<longrightarrow> late_days L = 0"
    by (simp add: late_days_def)
  have 2: "\<forall>r. returned L = Some r \<and> r \<le> due L \<longrightarrow> late_days L = 0"
    by (simp add: late_days_def)
  have 3: "\<forall>r. returned L = Some r \<and> due L < r \<longrightarrow> late_days L = r - due L"
    by (simp add: late_days_def)
  have 4: "\<forall>c loanId L0 R.
      fst (return_copy w copyId' (Some when)) = Inr () \<and>
      copies (db w) copyId' = Some c \<and>
      find_copy_loan (loans (db w)) copyId' = Some loanId \<and>
      map_of (loans (db w)) loanId = Some L0 \<and>
      readers (db w) (readerId L0) = Some R \<longrightarrow>
      map_option activeBanUntil
        (readers (db (snd (return_copy w copyId' (Some when)))) (readerId L0)) =
      Some (if 0 < late_days (L0\<lparr>returned := Some when\<rparr>)
            then Some (when + 2 * late_days (L0\<lparr>returned := Some when\<rparr>))
            else activeBanUntil R)"
    by (simp add: return_copy_db close_reader_ban)
  have 5: "\<forall>loanId L0 R.
      fst (return_original_new_release w bookId' readerId' (Some when)) = Inr () \<and>
      find_original_loan (loans (db w)) bookId' readerId' = Some loanId \<and>
      map_of (loans (db w)) loanId = Some L0 \<and>
      readers (db w) readerId' = Some R \<longrightarrow>
      map_option activeBanUntil
        (readers (db (snd (return_original_new_release w bookId' readerId' (Some when))))
           readerId') =
      Some (if 0 < late_days (L0\<lparr>returned := Some when\<rparr>)
            then Some (when + 2 * late_days (L0\<lparr>returned := Some when\<rparr>))
            else activeBanUntil R)"
    by (simp add: return_original_db close_reader_ban)
  from 1 2 3 4 5 show ?thesis by blast
qed

text \<open>The tests \<open>test_retraso_1dia_ban_2\<close>, \<open>test_retraso_5dias_ban_10\<close> and
  \<open>test_devolver_dia_30_sin_sancion\<close>: the copy lent on day 739525 is due on day 739555;
  returned one day late it bans until two days after the return, five days late until ten
  days after, and on the due date it sets no ban.\<close>

theorem late_days_and_ban_rule_witness:
  "fst (return_copy lent ''C1'' (Some 739556)) = Inr () \<and>
   map_option activeBanUntil (readers (db (snd (return_copy lent ''C1'' (Some 739556)))) ''R1'')
     = Some (Some 739558) \<and>
   fst (return_copy lent ''C1'' (Some 739560)) = Inr () \<and>
   map_option activeBanUntil (readers (db (snd (return_copy lent ''C1'' (Some 739560)))) ''R1'')
     = Some (Some 739570) \<and>
   fst (return_copy lent ''C1'' (Some 739555)) = Inr () \<and>
   map_option activeBanUntil (readers (db (snd (return_copy lent ''C1'' (Some 739555)))) ''R1'')
     = Some None"
proof -
  have r1: "fst (return_copy lent ''C1'' (Some 739556)) = Inr ()"
    and r5: "fst (return_copy lent ''C1'' (Some 739560)) = Inr ()"
    and r0: "fst (return_copy lent ''C1'' (Some 739555)) = Inr ()"
    by (simp_all add: lent_eq return_copy_def eval_simps)
  from r1 r5 r0 lent_fields
    late_days_and_ban_rule [of _ lent "''C1''" 739556]
    late_days_and_ban_rule [of _ lent "''C1''" 739560]
    late_days_and_ban_rule [of _ lent "''C1''" 739555]
  show ?thesis by (simp add: late_days_def)
qed

text \<open>
  C4. \<open>borrow_copy\<close> checks, in this order: the copy exists (else \<open>COPY_NOT_FOUND\<close>), the
  reader exists (else \<open>READER_NOT_FOUND\<close>), the reader can borrow on the date (else
  \<open>BORROW_FORBIDDEN\<close>), the copy is \<open>IN_LIBRARY\<close> (else \<open>COPY_NOT_AVAILABLE\<close>); the four
  faults are distinct, a failed check leaves the state as it was, and when all four
  checks pass and the due date is representable the call returns the new loan id. So
  a copy that is not \<open>IN_LIBRARY\<close> asked for by a reader who cannot borrow gives
  \<open>BORROW_FORBIDDEN\<close>, not \<open>COPY_NOT_AVAILABLE\<close>.
\<close>

theorem borrow_copy_check_order:
  "(copies (db w) copyId' = None \<longrightarrow>
      borrow_copy w copyId' readerId' asOf = (Inl (ValueError COPY_NOT_FOUND), w)) \<and>
   (copies (db w) copyId' \<noteq> None \<and> readers (db w) readerId' = None \<longrightarrow>
      borrow_copy w copyId' readerId' asOf = (Inl (ValueError READER_NOT_FOUND), w)) \<and>
   (\<forall>c r. copies (db w) copyId' = Some c \<and> readers (db w) readerId' = Some r \<and>
        \<not> can_borrow r (today_or w asOf) \<longrightarrow>
      borrow_copy w copyId' readerId' asOf = (Inl (ValueError BORROW_FORBIDDEN), w)) \<and>
   (\<forall>c r. copies (db w) copyId' = Some c \<and> readers (db w) readerId' = Some r \<and>
        can_borrow r (today_or w asOf) \<and> status c \<noteq> IN_LIBRARY \<longrightarrow>
      borrow_copy w copyId' readerId' asOf = (Inl (ValueError COPY_NOT_AVAILABLE), w)) \<and>
   (\<forall>c r. copies (db w) copyId' = Some c \<and> readers (db w) readerId' = Some r \<and>
        can_borrow r (today_or w asOf) \<and> status c = IN_LIBRARY \<and>
        MINORDINAL \<le> today_or w asOf + 30 \<and> today_or w asOf + 30 \<le> MAXORDINAL \<longrightarrow>
      fst (borrow_copy w copyId' readerId' asOf) = Inr (next_loan_id (loans (db w)))) \<and>
   (\<forall>c r. copies (db w) copyId' = Some c \<and> status c \<noteq> IN_LIBRARY \<and>
        readers (db w) readerId' = Some r \<and> \<not> can_borrow r (today_or w asOf) \<longrightarrow>
      fst (borrow_copy w copyId' readerId' asOf) = Inl (ValueError BORROW_FORBIDDEN) \<and>
      fst (borrow_copy w copyId' readerId' asOf) \<noteq> Inl (ValueError COPY_NOT_AVAILABLE)) \<and>
   distinct [COPY_NOT_FOUND, READER_NOT_FOUND, BORROW_FORBIDDEN, COPY_NOT_AVAILABLE]"
  by (auto simp: borrow_copy_def Let_def add_days_def)

lemma lent_R2_banned_fields:
  "copies (db lent_R2_banned) ''C1'' =
     Some \<lparr>id_Copy = ''C1'', bookId_Copy = ''B1'', status = LOANED\<rparr>"
  "copies (db lent_R2_banned) ''C2'' =
     Some \<lparr>id_Copy = ''C2'', bookId_Copy = ''B1'', status = IN_LIBRARY\<rparr>"
  "copies (db lent_R2_banned) ''C9'' = None"
  "readers (db lent_R2_banned) ''R1'' = Some \<lparr>id_Reader = ''R1'', email = ''alice@example.com'',
                     activeBanUntil = None, activeLoanIds = [''L1'']\<rparr>"
  "readers (db lent_R2_banned) ''R2'' = Some \<lparr>id_Reader = ''R2'', email = ''bob@example.com'',
                  activeBanUntil = Some 739525, activeLoanIds = []\<rparr>"
  "readers (db lent_R2_banned) ''R9'' = None"
  "length (loans (db lent_R2_banned)) = 1"
  by (simp_all add: lent_R2_banned_def lent_eq seed_def seed_db_def)

theorem borrow_copy_check_order_witness:
  "fst (borrow_copy lent_R2_banned ''C9'' ''R9'' (Some 739525)) = Inl (ValueError COPY_NOT_FOUND) \<and>
   fst (borrow_copy lent_R2_banned ''C1'' ''R9'' (Some 739525)) = Inl (ValueError READER_NOT_FOUND) \<and>
   fst (borrow_copy lent_R2_banned ''C1'' ''R2'' (Some 739525)) = Inl (ValueError BORROW_FORBIDDEN) \<and>
   fst (borrow_copy lent_R2_banned ''C1'' ''R1'' (Some 739525)) = Inl (ValueError COPY_NOT_AVAILABLE) \<and>
   fst (borrow_copy lent_R2_banned ''C2'' ''R1'' (Some 739525)) = Inr ''L2''"
  using lent_R2_banned_fields
    borrow_copy_check_order [of lent_R2_banned "''C9''" "''R9''" "Some 739525"]
    borrow_copy_check_order [of lent_R2_banned "''C1''" "''R9''" "Some 739525"]
    borrow_copy_check_order [of lent_R2_banned "''C1''" "''R2''" "Some 739525"]
    borrow_copy_check_order [of lent_R2_banned "''C1''" "''R1''" "Some 739525"]
    borrow_copy_check_order [of lent_R2_banned "''C2''" "''R1''" "Some 739525"]
  by (simp add: today_or_def can_borrow_def MINORDINAL_def MAXORDINAL_def next_loan_id_def
      str_nat_small digit_def)




lemma lent_R1_banned_fields:
  "copies (db lent_R1_banned) ''C1'' =
     Some \<lparr>id_Copy = ''C1'', bookId_Copy = ''B1'', status = LOANED\<rparr>"
  "find_copy_loan (loans (db lent_R1_banned)) ''C1'' = Some ''L1''"
  "map_of (loans (db lent_R1_banned)) ''L1'' = Some \<lparr>copyId = ''C1'', bookId = ''B1'',
         readerId = ''R1'', start = 739525, due = 739555, returned = None\<rparr>"
  "readers (db lent_R1_banned) ''R1'' = Some \<lparr>id_Reader = ''R1'', email = ''alice@example.com'',
                     activeBanUntil = Some 739600, activeLoanIds = [''L1'']\<rparr>"
  by (simp_all add: lent_R1_banned_def lent_eq seed_def seed_db_def)

lemma original_lent_eq:
  "original_lent = seed\<lparr>db := seed_db
       \<lparr>loans := [(''L1'', \<lparr>copyId = [], bookId = ''B2'', readerId = ''R2'',
                    start = 739525, due = 739555, returned = None\<rparr>)],
        newReleaseBorrowed := {''B2''},
        readers := (readers seed_db)
          (''R2'' \<mapsto> \<lparr>id_Reader = ''R2'', email = ''bob@example.com'',
                     activeBanUntil = Some 739500, activeLoanIds = [''L1'']\<rparr>)\<rparr>\<rparr>"
  by (simp add: original_lent_def borrow_original_new_release_def eval_simps)

lemma original_lent_fields:
  "find_original_loan (loans (db original_lent)) ''B2'' ''R2'' = Some ''L1''"
  "map_of (loans (db original_lent)) ''L1'' = Some \<lparr>copyId = [], bookId = ''B2'',
         readerId = ''R2'', start = 739525, due = 739555, returned = None\<rparr>"
  "readers (db original_lent) ''R2'' = Some \<lparr>id_Reader = ''R2'', email = ''bob@example.com'',
                     activeBanUntil = Some 739500, activeLoanIds = [''L1'']\<rparr>"
  by (simp_all add: original_lent_eq seed_def seed_db_def)

text \<open>
  C8. A successful late return (of a copy, or of an original) closing the loan \<open>L\<close> on
  day \<open>when\<close> leaves the borrower banned until \<open>when + 2 * lateDays\<close>, whatever ban the
  borrower \<open>R\<close> had before: the previous value does not occur in the result.
\<close>

theorem late_return_overwrites_ban:
  "(\<forall>c loanId L R.
      fst (return_copy w copyId' (Some when)) = Inr () \<and>
      copies (db w) copyId' = Some c \<and>
      find_copy_loan (loans (db w)) copyId' = Some loanId \<and>
      map_of (loans (db w)) loanId = Some L \<and>
      readers (db w) (readerId L) = Some R \<and>
      0 < late_days (L\<lparr>returned := Some when\<rparr>) \<longrightarrow>
      map_option activeBanUntil
        (readers (db (snd (return_copy w copyId' (Some when)))) (readerId L)) =
      Some (Some (when + 2 * late_days (L\<lparr>returned := Some when\<rparr>)))) \<and>
   (\<forall>loanId L R.
      fst (return_original_new_release w bookId' readerId' (Some when)) = Inr () \<and>
      find_original_loan (loans (db w)) bookId' readerId' = Some loanId \<and>
      map_of (loans (db w)) loanId = Some L \<and>
      readers (db w) readerId' = Some R \<and>
      0 < late_days (L\<lparr>returned := Some when\<rparr>) \<longrightarrow>
      map_option activeBanUntil
        (readers (db (snd (return_original_new_release w bookId' readerId' (Some when))))
           readerId') =
      Some (Some (when + 2 * late_days (L\<lparr>returned := Some when\<rparr>))))"
  by (simp add: return_copy_db return_original_db close_reader_ban)

text \<open>A reader banned until day 739600 who returns one day late, on day 739556, is
  banned until day 739558 afterwards: the ban is replaced, here by a shorter one. The
  original returned five days late replaces the ban that ended on day 739500.\<close>

theorem late_return_overwrites_ban_witness:
  "map_option activeBanUntil (readers (db lent_R1_banned) ''R1'') = Some (Some 739600) \<and>
   fst (return_copy lent_R1_banned ''C1'' (Some 739556)) = Inr () \<and>
   map_option activeBanUntil
     (readers (db (snd (return_copy lent_R1_banned ''C1'' (Some 739556)))) ''R1'')
     = Some (Some 739558) \<and>
   map_option activeBanUntil (readers (db original_lent) ''R2'') = Some (Some 739500) \<and>
   fst (return_original_new_release original_lent ''B2'' ''R2'' (Some 739560)) = Inr () \<and>
   map_option activeBanUntil
     (readers (db (snd (return_original_new_release original_lent ''B2'' ''R2'' (Some 739560))))
        ''R2'')
     = Some (Some 739570)"
proof -
  have a: "fst (return_copy lent_R1_banned ''C1'' (Some 739556)) = Inr ()"
    by (simp add: lent_R1_banned_def lent_eq return_copy_def eval_simps)
  have b: "fst (return_original_new_release original_lent ''B2'' ''R2'' (Some 739560)) = Inr ()"
    by (simp add: original_lent_eq return_original_new_release_def eval_simps)
  from a b lent_R1_banned_fields original_lent_fields
    late_return_overwrites_ban [of lent_R1_banned "''C1''" 739556 "''B2''" "''R2''"]
    late_return_overwrites_ban [of original_lent "''C1''" 739560 "''B2''" "''R2''"]
  show ?thesis by (simp add: late_days_def)
qed

lemma update_keys_same:
  "map_of al k = Some v \<Longrightarrow> map fst (AList.update k v' al) = map fst al"
  by (induction al) (auto split: if_splits)

text \<open>
  C10. A successful return that is not late (on or before the due date) leaves the
  borrower's ban as it was. The store after it differs from the store before in three
  places only: the loan found is closed (the other loans, and the order of all, are
  kept), the copy is \<open>IN_LIBRARY\<close> (for an original: the book has left the set of borrowed
  originals), and the loan id has left the borrower's active loans.
\<close>

theorem on_time_return_frame:
  "(\<forall>c loanId L R.
      fst (return_copy w copyId' (Some when)) = Inr () \<and>
      copies (db w) copyId' = Some c \<and>
      find_copy_loan (loans (db w)) copyId' = Some loanId \<and>
      map_of (loans (db w)) loanId = Some L \<and>
      readers (db w) (readerId L) = Some R \<and>
      late_days (L\<lparr>returned := Some when\<rparr>) = 0 \<longrightarrow>
      db (snd (return_copy w copyId' (Some when))) = (db w)
        \<lparr>loans := AList.update loanId (L\<lparr>returned := Some when\<rparr>) (loans (db w)),
         readers := (readers (db w))
           (readerId L \<mapsto> R\<lparr>activeLoanIds := filter (\<lambda>x. x \<noteq> loanId) (activeLoanIds R)\<rparr>),
         copies := (copies (db w))(copyId' \<mapsto> c\<lparr>status := IN_LIBRARY\<rparr>)\<rparr> \<and>
      map_option activeBanUntil
        (readers (db (snd (return_copy w copyId' (Some when)))) (readerId L)) =
      Some (activeBanUntil R) \<and>
      map fst (loans (db (snd (return_copy w copyId' (Some when))))) = map fst (loans (db w)) \<and>
      map_of (loans (db (snd (return_copy w copyId' (Some when))))) =
        (map_of (loans (db w)))(loanId \<mapsto> L\<lparr>returned := Some when\<rparr>)) \<and>
   (\<forall>loanId L R.
      fst (return_original_new_release w bookId' readerId' (Some when)) = Inr () \<and>
      find_original_loan (loans (db w)) bookId' readerId' = Some loanId \<and>
      map_of (loans (db w)) loanId = Some L \<and>
      readers (db w) readerId' = Some R \<and>
      late_days (L\<lparr>returned := Some when\<rparr>) = 0 \<longrightarrow>
      db (snd (return_original_new_release w bookId' readerId' (Some when))) = (db w)
        \<lparr>loans := AList.update loanId (L\<lparr>returned := Some when\<rparr>) (loans (db w)),
         newReleaseBorrowed := newReleaseBorrowed (db w) - {bookId'},
         readers := (readers (db w))
           (readerId' \<mapsto> R\<lparr>activeLoanIds := filter (\<lambda>x. x \<noteq> loanId) (activeLoanIds R)\<rparr>)\<rparr> \<and>
      map_option activeBanUntil
        (readers (db (snd (return_original_new_release w bookId' readerId' (Some when))))
           readerId') =
      Some (activeBanUntil R) \<and>
      map fst (loans (db (snd (return_original_new_release w bookId' readerId' (Some when)))))
        = map fst (loans (db w)) \<and>
      map_of (loans (db (snd (return_original_new_release w bookId' readerId' (Some when))))) =
        (map_of (loans (db w)))(loanId \<mapsto> L\<lparr>returned := Some when\<rparr>))"
  by (simp add: return_copy_db return_original_db close_reader_on_time update_conv'
      update_keys_same)

text \<open>A reader banned until day 739600 who returns on the due date, day 739555, is
  still banned until day 739600.\<close>

theorem on_time_return_frame_witness:
  "fst (return_copy lent_R1_banned ''C1'' (Some 739555)) = Inr () \<and>
   map_option activeBanUntil
     (readers (db (snd (return_copy lent_R1_banned ''C1'' (Some 739555)))) ''R1'')
     = Some (Some 739600) \<and>
   fst (return_original_new_release original_lent ''B2'' ''R2'' (Some 739534)) = Inr () \<and>
   map_option activeBanUntil
     (readers (db (snd (return_original_new_release original_lent ''B2'' ''R2'' (Some 739534))))
        ''R2'')
     = Some (Some 739500)"
proof -
  have a: "fst (return_copy lent_R1_banned ''C1'' (Some 739555)) = Inr ()"
    by (simp add: lent_R1_banned_def lent_eq return_copy_def eval_simps)
  have b: "fst (return_original_new_release original_lent ''B2'' ''R2'' (Some 739534)) = Inr ()"
    by (simp add: original_lent_eq return_original_new_release_def eval_simps)
  from a b lent_R1_banned_fields original_lent_fields
    on_time_return_frame [of lent_R1_banned "''C1''" 739555 "''B2''" "''R2''"]
    on_time_return_frame [of original_lent "''C1''" 739534 "''B2''" "''R2''"]
  show ?thesis by (simp add: late_days_def)
qed

subsection \<open>The notifier\<close>





subsection \<open>The outcomes of a call\<close>

lemma borrow_copy_outcomes:
  "snd (borrow_copy w c r t) = w \<or>
   (\<exists>loanId. borrow_copy w c r t = (Inr loanId, snd (borrow_copy w c r t)))"
proof (cases "fst (borrow_copy w c r t)")
  case (Inl e)
  then have "borrow_copy w c r t = (Inl e, snd (borrow_copy w c r t))"
    by (metis prod.collapse)
  then show ?thesis by (auto dest: borrow_copy_raises)
next
  case (Inr loanId)
  then show ?thesis by (metis prod.collapse)
qed

lemma borrow_original_outcomes:
  "snd (borrow_original_new_release w b r t) = w \<or>
   (\<exists>loanId. borrow_original_new_release w b r t =
      (Inr loanId, snd (borrow_original_new_release w b r t)))"
proof (cases "fst (borrow_original_new_release w b r t)")
  case (Inl e)
  then have "borrow_original_new_release w b r t =
      (Inl e, snd (borrow_original_new_release w b r t))"
    by (metis prod.collapse)
  then show ?thesis by (auto dest: borrow_original_raises)
next
  case (Inr loanId)
  then show ?thesis by (metis prod.collapse)
qed

lemma return_copy_outcomes:
  "snd (return_copy w cid t0) = w \<or>
   (\<exists>c loanId L R.
      copies (db w) cid = Some c \<and>
      find_copy_loan (loans (db w)) cid = Some loanId \<and>
      map_of (loans (db w)) loanId = Some L \<and>
      readers (db w) (readerId L) = Some R \<and>
      (db (snd (return_copy w cid t0)) = (db w)
         \<lparr>loans := AList.update loanId (L\<lparr>returned := Some (today_or w t0)\<rparr>) (loans (db w))\<rparr> \<or>
       db (snd (return_copy w cid t0)) = (db w)
         \<lparr>loans := AList.update loanId (L\<lparr>returned := Some (today_or w t0)\<rparr>) (loans (db w)),
          readers := (readers (db w))(readerId L \<mapsto> close_reader R L loanId (today_or w t0)),
          copies := (copies (db w))(cid \<mapsto> c\<lparr>status := IN_LIBRARY\<rparr>)\<rparr>))"
proof (cases "\<exists>c loanId L R. copies (db w) cid = Some c \<and> (status c = LOANED \<or> status c = LATE) \<and>
    find_copy_loan (loans (db w)) cid = Some loanId \<and> loanId \<noteq> [] \<and>
    map_of (loans (db w)) loanId = Some L \<and> readers (db w) (readerId L) = Some R")
  case True
  then obtain c loanId L R where c: "copies (db w) cid = Some c"
    and st: "status c = LOANED \<or> status c = LATE"
    and f: "find_copy_loan (loans (db w)) cid = Some loanId" and ne: "loanId \<noteq> []"
    and L: "map_of (loans (db w)) loanId = Some L" and R: "readers (db w) (readerId L) = Some R"
    by blast
  note eq = return_copy_found [OF c st f ne L R, of t0]
  have "db (snd (return_copy w cid t0)) = (db w)
         \<lparr>loans := AList.update loanId (L\<lparr>returned := Some (today_or w t0)\<rparr>) (loans (db w))\<rparr> \<or>
       db (snd (return_copy w cid t0)) = (db w)
         \<lparr>loans := AList.update loanId (L\<lparr>returned := Some (today_or w t0)\<rparr>) (loans (db w)),
          readers := (readers (db w))(readerId L \<mapsto> close_reader R L loanId (today_or w t0)),
          copies := (copies (db w))(cid \<mapsto> c\<lparr>status := IN_LIBRARY\<rparr>)\<rparr>"
  proof (cases "ban_overflows L (today_or w t0)")
    case True
    with eq show ?thesis by simp
  next
    case False
    with eq have "return_copy w cid t0 = notify_return
           (w\<lparr>db := (db w)
               \<lparr>loans := AList.update loanId (L\<lparr>returned := Some (today_or w t0)\<rparr>) (loans (db w)),
                readers := (readers (db w))(readerId L \<mapsto> close_reader R L loanId (today_or w t0)),
                copies := (copies (db w))(cid \<mapsto> c\<lparr>status := IN_LIBRARY\<rparr>)\<rparr>\<rparr>)
           (bookId L)" by simp
    from db_notify_return [OF prod.collapse [symmetric], of _ "bookId L"] this
    show ?thesis by simp
  qed
  with c f L R show ?thesis by blast
next
  case False
  then have "snd (return_copy w cid t0) = w"
    by (auto simp: return_copy_def Let_def split: option.splits)
  then show ?thesis ..
qed

lemma return_original_outcomes:
  "snd (return_original_new_release w bid rid t0) = w \<or>
   (\<exists>loanId L R.
      readers (db w) rid = Some R \<and>
      find_original_loan (loans (db w)) bid rid = Some loanId \<and>
      map_of (loans (db w)) loanId = Some L \<and>
      (db (snd (return_original_new_release w bid rid t0)) = (db w)
         \<lparr>loans := AList.update loanId (L\<lparr>returned := Some (today_or w t0)\<rparr>) (loans (db w))\<rparr> \<or>
       db (snd (return_original_new_release w bid rid t0)) = (db w)
         \<lparr>loans := AList.update loanId (L\<lparr>returned := Some (today_or w t0)\<rparr>) (loans (db w)),
          newReleaseBorrowed := newReleaseBorrowed (db w) - {bid},
          readers := (readers (db w))(rid \<mapsto> close_reader R L loanId (today_or w t0))\<rparr>))"
proof (cases "\<exists>b R loanId L. books (db w) bid = Some b \<and> readers (db w) rid = Some R \<and>
    bid \<in> newReleaseBorrowed (db w) \<and>
    find_original_loan (loans (db w)) bid rid = Some loanId \<and> loanId \<noteq> [] \<and>
    map_of (loans (db w)) loanId = Some L")
  case True
  then obtain b R loanId L where b: "books (db w) bid = Some b"
    and R: "readers (db w) rid = Some R" and m: "bid \<in> newReleaseBorrowed (db w)"
    and f: "find_original_loan (loans (db w)) bid rid = Some loanId" and ne: "loanId \<noteq> []"
    and L: "map_of (loans (db w)) loanId = Some L"
    by blast
  note eq = return_original_found [OF b R m f ne L, of t0]
  have "db (snd (return_original_new_release w bid rid t0)) = (db w)
         \<lparr>loans := AList.update loanId (L\<lparr>returned := Some (today_or w t0)\<rparr>) (loans (db w))\<rparr> \<or>
       db (snd (return_original_new_release w bid rid t0)) = (db w)
         \<lparr>loans := AList.update loanId (L\<lparr>returned := Some (today_or w t0)\<rparr>) (loans (db w)),
          newReleaseBorrowed := newReleaseBorrowed (db w) - {bid},
          readers := (readers (db w))(rid \<mapsto> close_reader R L loanId (today_or w t0))\<rparr>"
  proof (cases "ban_overflows L (today_or w t0)")
    case True
    with eq show ?thesis by simp
  next
    case False
    with eq have "return_original_new_release w bid rid t0 = notify_return
           (w\<lparr>db := (db w)
               \<lparr>loans := AList.update loanId (L\<lparr>returned := Some (today_or w t0)\<rparr>) (loans (db w)),
                newReleaseBorrowed := newReleaseBorrowed (db w) - {bid},
                readers := (readers (db w))(rid \<mapsto> close_reader R L loanId (today_or w t0))\<rparr>\<rparr>)
           bid" by simp
    from db_notify_return [OF prod.collapse [symmetric], of _ bid] this
    show ?thesis by simp
  qed
  with R f L show ?thesis by blast
next
  case False
  then have "snd (return_original_new_release w bid rid t0) = w"
    by (auto simp: return_original_new_release_def Let_def split: option.splits)
  then show ?thesis ..
qed

subsection \<open>The limit of three loans is invariant\<close>

lemma loan_limit_same: "loan_limit d \<Longrightarrow> readers d' = readers d \<Longrightarrow> loan_limit d'"
  by (simp add: loan_limit_def)

lemma loan_limit_close:
  assumes "loan_limit d" "readers d k = Some R"
    "readers d' = (readers d)(k \<mapsto> close_reader R L loanId t)"
  shows "loan_limit d'"
  unfolding loan_limit_def
proof (intro allI impI)
  fix rid R' assume r: "readers d' rid = Some R'"
  show "length (activeLoanIds R') \<le> 3"
  proof (cases "rid = k")
    case True
    with r assms(3) have "R' = close_reader R L loanId t" by simp
    with length_close_reader [of R L loanId t] assms(1,2) show ?thesis
      by (auto simp: loan_limit_def intro: order_trans)
  next
    case False
    with r assms(3) have "readers d rid = Some R'" by simp
    with assms(1) show ?thesis by (simp add: loan_limit_def)
  qed
qed

lemma loan_limit_exec:
  assumes "loan_limit (db w)"
  shows "loan_limit (db (exec w c))"
proof (cases c)
  case (BorrowCopy cid rid t)
  from borrow_copy_outcomes [of w cid rid t] show ?thesis
  proof
    assume "snd (borrow_copy w cid rid t) = w"
    with assms BorrowCopy show ?thesis by simp
  next
    assume "\<exists>loanId. borrow_copy w cid rid t = (Inr loanId, snd (borrow_copy w cid rid t))"
    then obtain loanId where "borrow_copy w cid rid t = (Inr loanId, snd (borrow_copy w cid rid t))" ..
    from borrow_copy_success [OF this] assms BorrowCopy show ?thesis
      by (auto simp: loan_limit_def can_borrow_def Let_def split: if_splits)
  qed
next
  case (BorrowOriginalNewRelease bid rid t)
  from borrow_original_outcomes [of w bid rid t] show ?thesis
  proof
    assume "snd (borrow_original_new_release w bid rid t) = w"
    with assms BorrowOriginalNewRelease show ?thesis by simp
  next
    assume "\<exists>loanId. borrow_original_new_release w bid rid t =
      (Inr loanId, snd (borrow_original_new_release w bid rid t))"
    then obtain loanId where "borrow_original_new_release w bid rid t =
      (Inr loanId, snd (borrow_original_new_release w bid rid t))" ..
    from borrow_original_success [OF this] assms BorrowOriginalNewRelease show ?thesis
      by (auto simp: loan_limit_def can_borrow_def Let_def split: if_splits)
  qed
next
  case (ReturnCopy cid t)
  from return_copy_outcomes [of w cid t] show ?thesis
  proof (elim disjE exE conjE)
    assume "snd (return_copy w cid t) = w"
    with assms ReturnCopy show ?thesis by simp
  next
    fix c0 loanId L R
    assume "db (snd (return_copy w cid t)) = (db w)
         \<lparr>loans := AList.update loanId (L\<lparr>returned := Some (today_or w t)\<rparr>) (loans (db w))\<rparr>"
    with ReturnCopy have "readers (db (exec w c)) = readers (db w)" by simp
    with assms show ?thesis by (rule loan_limit_same)
  next
    fix c0 loanId L R
    assume R: "readers (db w) (readerId L) = Some R"
      and "db (snd (return_copy w cid t)) = (db w)
         \<lparr>loans := AList.update loanId (L\<lparr>returned := Some (today_or w t)\<rparr>) (loans (db w)),
          readers := (readers (db w))(readerId L \<mapsto> close_reader R L loanId (today_or w t)),
          copies := (copies (db w))(cid \<mapsto> c0\<lparr>status := IN_LIBRARY\<rparr>)\<rparr>"
    with ReturnCopy have "readers (db (exec w c)) =
        (readers (db w))(readerId L \<mapsto> close_reader R L loanId (today_or w t))" by simp
    with assms R show ?thesis by (rule loan_limit_close)
  qed
next
  case (ReturnOriginalNewRelease bid rid t)
  from return_original_outcomes [of w bid rid t] show ?thesis
  proof (elim disjE exE conjE)
    assume "snd (return_original_new_release w bid rid t) = w"
    with assms ReturnOriginalNewRelease show ?thesis by simp
  next
    fix loanId L R
    assume "db (snd (return_original_new_release w bid rid t)) = (db w)
         \<lparr>loans := AList.update loanId (L\<lparr>returned := Some (today_or w t)\<rparr>) (loans (db w))\<rparr>"
    with ReturnOriginalNewRelease have "readers (db (exec w c)) = readers (db w)" by simp
    with assms show ?thesis by (rule loan_limit_same)
  next
    fix loanId L R
    assume R: "readers (db w) rid = Some R"
      and "db (snd (return_original_new_release w bid rid t)) = (db w)
         \<lparr>loans := AList.update loanId (L\<lparr>returned := Some (today_or w t)\<rparr>) (loans (db w)),
          newReleaseBorrowed := newReleaseBorrowed (db w) - {bid},
          readers := (readers (db w))(rid \<mapsto> close_reader R L loanId (today_or w t))\<rparr>"
    with ReturnOriginalNewRelease have "readers (db (exec w c)) =
        (readers (db w))(rid \<mapsto> close_reader R L loanId (today_or w t))" by simp
    with assms R show ?thesis by (rule loan_limit_close)
  qed
qed

lemma loan_limit_run: "loan_limit (db w) \<Longrightarrow> loan_limit (db (run w evs))"
proof (induction evs arbitrary: w)
  case Nil
  then show ?case by simp
next
  case (Cons ev evs)
  obtain now c where ev: "ev = (now, c)" by (cases ev)
  from Cons.prems have "loan_limit (db (w\<lparr>clock := now\<rparr>))" by simp
  then have "loan_limit (db (exec (w\<lparr>clock := now\<rparr>) c))" by (rule loan_limit_exec)
  then show ?case using ev Cons.IH by simp
qed

lemma at_limit_fields:
  "readers (db at_limit) ''R1'' = Some \<lparr>id_Reader = ''R1'', email = ''alice@example.com'',
      activeBanUntil = None, activeLoanIds = [''L1'', ''L2'', ''L3'']\<rparr>"
  "copies (db at_limit) ''C4'' =
      Some \<lparr>id_Copy = ''C4'', bookId_Copy = ''B1'', status = IN_LIBRARY\<rparr>"
  "books (db at_limit) ''B1'' = Some \<lparr>id_Book = ''B1'', title = ''Software Engineering'',
      year = 2020, author = \<lparr>fullName = ''Ian Sommerville'', birthDate = ''1951-08-23''\<rparr>,
      edition = ''10th'', isNewRelease = False\<rparr>"
  "books (db at_limit) ''B2'' = Some \<lparr>id_Book = ''B2'', title = ''Clean C++ (New Release)'',
      year = 2025, author = \<lparr>fullName = ''Some Author'', birthDate = ''1980-01-01''\<rparr>,
      edition = ''1st'', isNewRelease = True\<rparr>"
  by (simp_all add: at_limit_def three_borrows_def seed4_def borrow_copy_def eval_simps)

lemma loan_limit_seed4: "loan_limit (db seed4)"
  by (simp add: loan_limit_def seed4_def seed_def seed_db_def)

text \<open>
  C6, as the code has it. Whatever calls are made, with whatever outcome, no reader ever
  has more than three active loans when none had before. A borrow by a reader who has
  three active loans (or more) never succeeds and changes nothing; it raises
  \<open>BORROW_FORBIDDEN\<close> when the checks made before the reader's eligibility pass:
  for \<open>borrow_copy\<close> the copy exists, for \<open>borrow_original_new_release\<close> the book exists and
  is a new release. Otherwise it raises the fault of the check that fails:
  \<open>COPY_NOT_FOUND\<close>, \<open>BOOK_NOT_FOUND\<close> or \<open>NOT_NEW_RELEASE\<close>.
\<close>

theorem loan_limit_invariant:
  "(loan_limit (db w) \<longrightarrow> loan_limit (db (run w evs))) \<and>
   (\<forall>R. readers (db w) readerId' = Some R \<and> 3 \<le> length (activeLoanIds R) \<longrightarrow>
      (\<exists>e. borrow_copy w copyId' readerId' t = (Inl e, w)) \<and>
      (copies (db w) copyId' \<noteq> None \<longrightarrow>
         borrow_copy w copyId' readerId' t = (Inl (ValueError BORROW_FORBIDDEN), w)) \<and>
      (copies (db w) copyId' = None \<longrightarrow>
         borrow_copy w copyId' readerId' t = (Inl (ValueError COPY_NOT_FOUND), w)) \<and>
      (\<exists>e. borrow_original_new_release w bookId' readerId' t = (Inl e, w)) \<and>
      (\<forall>B. books (db w) bookId' = Some B \<and> isNewRelease B \<longrightarrow>
         borrow_original_new_release w bookId' readerId' t =
           (Inl (ValueError BORROW_FORBIDDEN), w)) \<and>
      (\<forall>B. books (db w) bookId' = Some B \<and> \<not> isNewRelease B \<longrightarrow>
         borrow_original_new_release w bookId' readerId' t =
           (Inl (ValueError NOT_NEW_RELEASE), w)) \<and>
      (books (db w) bookId' = None \<longrightarrow>
         borrow_original_new_release w bookId' readerId' t =
           (Inl (ValueError BOOK_NOT_FOUND), w)))"
proof -
  have inv: "loan_limit (db w) \<longrightarrow> loan_limit (db (run w evs))"
    by (simp add: loan_limit_run)
  have forbidden: "\<forall>R. readers (db w) readerId' = Some R \<and> 3 \<le> length (activeLoanIds R) \<longrightarrow>
      (\<exists>e. borrow_copy w copyId' readerId' t = (Inl e, w)) \<and>
      (copies (db w) copyId' \<noteq> None \<longrightarrow>
         borrow_copy w copyId' readerId' t = (Inl (ValueError BORROW_FORBIDDEN), w)) \<and>
      (copies (db w) copyId' = None \<longrightarrow>
         borrow_copy w copyId' readerId' t = (Inl (ValueError COPY_NOT_FOUND), w)) \<and>
      (\<exists>e. borrow_original_new_release w bookId' readerId' t = (Inl e, w)) \<and>
      (\<forall>B. books (db w) bookId' = Some B \<and> isNewRelease B \<longrightarrow>
         borrow_original_new_release w bookId' readerId' t =
           (Inl (ValueError BORROW_FORBIDDEN), w)) \<and>
      (\<forall>B. books (db w) bookId' = Some B \<and> \<not> isNewRelease B \<longrightarrow>
         borrow_original_new_release w bookId' readerId' t =
           (Inl (ValueError NOT_NEW_RELEASE), w)) \<and>
      (books (db w) bookId' = None \<longrightarrow>
         borrow_original_new_release w bookId' readerId' t =
           (Inl (ValueError BOOK_NOT_FOUND), w))"
    by (auto simp: borrow_copy_def borrow_original_new_release_def can_borrow_def Let_def
        split: option.splits)
  from inv forbidden show ?thesis ..
qed

text \<open>The test \<open>test_limite_3_prestamos\<close>: after three loans the fourth borrow of \<open>R1\<close> is
  forbidden, for the copy \<open>C4\<close> as for the original of the new release \<open>B2\<close>.\<close>

theorem loan_limit_invariant_witness:
  "loan_limit (db seed4) \<and> loan_limit (db at_limit) \<and>
   map_option activeLoanIds (readers (db at_limit) ''R1'') = Some [''L1'', ''L2'', ''L3''] \<and>
   borrow_copy at_limit ''C4'' ''R1'' (Some 739525) =
     (Inl (ValueError BORROW_FORBIDDEN), at_limit) \<and>
   borrow_original_new_release at_limit ''B2'' ''R1'' (Some 739525) =
     (Inl (ValueError BORROW_FORBIDDEN), at_limit)"
  using loan_limit_seed4 at_limit_fields
    loan_limit_invariant [of seed4 three_borrows "''R1''" "''C4''" "Some 739525" "''B2''"]
    loan_limit_invariant [of at_limit "[]" "''R1''" "''C4''" "Some 739525" "''B2''"]
  by (simp add: at_limit_def)

text \<open>The claim as the specification words it fails where an earlier check fails: \<open>R1\<close>,
  with three active loans, asks for the original of \<open>B1\<close>, which is not a new release.\<close>

theorem borrow_at_limit_counterexample:
  "map_option activeLoanIds (readers (db at_limit) ''R1'') = Some [''L1'', ''L2'', ''L3''] \<and>
   fst (borrow_original_new_release at_limit ''B1'' ''R1'' (Some 739525))
     = Inl (ValueError NOT_NEW_RELEASE) \<and>
   fst (borrow_original_new_release at_limit ''B1'' ''R1'' (Some 739525))
     \<noteq> Inl (ValueError BORROW_FORBIDDEN)"
  by (simp add: at_limit_fields borrow_original_new_release_def Let_def)

subsection \<open>Updating a dictionary under a filter\<close>

lemma length_filter_update_le:
  "\<not> P (k, v) \<Longrightarrow> length (filter P (AList.update k v al)) \<le> length (filter P al)"
  by (induction al) auto

lemma length_filter_update_Suc:
  "length (filter P (AList.update k v al)) \<le> Suc (length (filter P al))"
  by (induction al) auto

lemma length_filter_update_less:
  "map_of al k = Some v0 \<Longrightarrow> P (k, v0) \<Longrightarrow> \<not> P (k, v) \<Longrightarrow>
   length (filter P (AList.update k v al)) < length (filter P al)"
  by (induction al) (auto split: if_splits)

lemma find_original_loan_key:
  "find_original_loan ls b r = Some k \<Longrightarrow> k \<in> fst ` set ls"
  by (induction ls b r rule: find_original_loan.induct) (auto split: if_splits)

lemma find_original_loan_sound:
  "distinct (map fst ls) \<Longrightarrow> find_original_loan ls b r = Some k \<Longrightarrow> map_of ls k = Some L \<Longrightarrow>
   bookId L = b \<and> readerId L = r \<and> copyId L = [] \<and> returned L = None"
proof (induction ls b r rule: find_original_loan.induct)
  case (1 b r)
  then show ?case by simp
next
  case (2 k' L' rest b r)
  show ?case
  proof (cases "bookId L' = b \<and> readerId L' = r \<and> copyId L' = [] \<and> returned L' = None")
    case True
    with "2.prems" show ?thesis by auto
  next
    case False
    with "2.prems" have f: "find_original_loan rest b r = Some k" by auto
    from find_original_loan_key [OF f] "2.prems"(1) have "k \<noteq> k'" by auto
    with "2.prems" have "map_of rest k = Some L" "distinct (map fst rest)" by auto
    with "2.IH" [OF False] f show ?thesis by simp
  qed
qed

subsection \<open>At most one open loan of an original\<close>

lemma open_originals_close:
  "length (open_originals (AList.update k (L\<lparr>returned := Some t\<rparr>) ls) b)
     \<le> length (open_originals ls b)"
  unfolding open_originals_def by (rule length_filter_update_le) simp

lemma open_originals_other:
  "bookId L \<noteq> b \<or> copyId L \<noteq> [] \<Longrightarrow>
   length (open_originals (AList.update k L ls) b) \<le> length (open_originals ls b)"
  unfolding open_originals_def by (rule length_filter_update_le) auto

lemma open_originals_new:
  "length (open_originals (AList.update k L ls) b) \<le> Suc (length (open_originals ls b))"
  unfolding open_originals_def by (rule length_filter_update_Suc)

lemma open_originals_closed:
  "map_of ls k = Some L \<Longrightarrow> bookId L = b \<Longrightarrow> copyId L = [] \<Longrightarrow> returned L = None \<Longrightarrow>
   length (open_originals (AList.update k (L\<lparr>returned := Some t\<rparr>) ls) b)
     < length (open_originals ls b)"
  unfolding open_originals_def by (rule length_filter_update_less) auto

lemma original_inv_empty: "loans d = [] \<Longrightarrow> copies d [] = None \<Longrightarrow> original_inv d"
  by (simp add: original_inv_def open_originals_def)

text \<open>The invariant is kept by each of the five ways in which a call changes the store.\<close>

lemma original_inv_close:
  assumes "original_inv d"
    and "loans d' = AList.update k (L\<lparr>returned := Some t\<rparr>) (loans d)"
    and "copies d' [] = None" and "newReleaseBorrowed d' = newReleaseBorrowed d"
  shows "original_inv d'"
  unfolding original_inv_def
proof (intro conjI allI impI)
  from assms show "distinct (map fst (loans d'))"
    by (simp add: original_inv_def distinct_update)
  from assms show "copies d' [] = None" by simp
next
  fix b
  have le: "length (open_originals (loans d') b) \<le> length (open_originals (loans d) b)"
    using assms(2) open_originals_close by simp
  with assms(1) show "length (open_originals (loans d') b) \<le> 1"
    by (auto simp: original_inv_def intro: order_trans)
  assume "open_originals (loans d') b \<noteq> []"
  with le have "open_originals (loans d) b \<noteq> []" by auto
  with assms(1,4) show "b \<in> newReleaseBorrowed d'" by (simp add: original_inv_def)
qed

lemma original_inv_return_original:
  assumes "original_inv d"
    and "find_original_loan (loans d) bid rid = Some k" and "map_of (loans d) k = Some L"
    and "loans d' = AList.update k (L\<lparr>returned := Some t\<rparr>) (loans d)"
    and "copies d' = copies d" and "newReleaseBorrowed d' = newReleaseBorrowed d - {bid}"
  shows "original_inv d'"
  unfolding original_inv_def
proof (intro conjI allI impI)
  from assms show "distinct (map fst (loans d'))"
    by (simp add: original_inv_def distinct_update)
  from assms show "copies d' [] = None" by (simp add: original_inv_def)
next
  fix b
  have le: "length (open_originals (loans d') b) \<le> length (open_originals (loans d) b)"
    using assms(4) open_originals_close by simp
  with assms(1) show "length (open_originals (loans d') b) \<le> 1"
    by (auto simp: original_inv_def intro: order_trans)
  assume ne: "open_originals (loans d') b \<noteq> []"
  with le have old: "open_originals (loans d) b \<noteq> []" by auto
  have "b \<noteq> bid"
  proof
    assume "b = bid"
    from assms(1) have "distinct (map fst (loans d))" by (simp add: original_inv_def)
    from find_original_loan_sound [OF this assms(2,3)]
    have "length (open_originals (AList.update k (L\<lparr>returned := Some t\<rparr>) (loans d)) bid)
        < length (open_originals (loans d) bid)"
      using assms(3) by (intro open_originals_closed) auto
    moreover from assms(1) have "length (open_originals (loans d) bid) \<le> 1"
      by (simp add: original_inv_def)
    ultimately
    have "length (open_originals (AList.update k (L\<lparr>returned := Some t\<rparr>) (loans d)) bid) < 1"
      by linarith
    then have "open_originals (loans d') bid = []" using assms(4) by simp
    with ne \<open>b = bid\<close> show False by simp
  qed
  with old assms(1,6) show "b \<in> newReleaseBorrowed d'" by (simp add: original_inv_def)
qed

lemma original_inv_borrow_copy:
  assumes "original_inv d" and "copies d cid = Some c"
    and "loans d' = AList.update k (new_loan cid bid rid t) (loans d)"
    and "copies d' = (copies d)(cid \<mapsto> c')" and "newReleaseBorrowed d' = newReleaseBorrowed d"
  shows "original_inv d'"
  unfolding original_inv_def
proof (intro conjI allI impI)
  from assms(1,2) have cid: "cid \<noteq> []" by (auto simp: original_inv_def)
  from assms show "distinct (map fst (loans d'))"
    by (simp add: original_inv_def distinct_update)
  from assms cid show "copies d' [] = None" by (simp add: original_inv_def)
  fix b
  have le: "length (open_originals (loans d') b) \<le> length (open_originals (loans d) b)"
    using assms(3) cid open_originals_other [of "new_loan cid bid rid t" b k "loans d"]
    by (simp add: new_loan_def)
  with assms(1) show "length (open_originals (loans d') b) \<le> 1"
    by (auto simp: original_inv_def intro: order_trans)
  assume "open_originals (loans d') b \<noteq> []"
  with le have "open_originals (loans d) b \<noteq> []" by auto
  with assms(1,5) show "b \<in> newReleaseBorrowed d'" by (simp add: original_inv_def)
qed

lemma original_inv_borrow_original:
  assumes "original_inv d" and "bid \<notin> newReleaseBorrowed d"
    and "loans d' = AList.update k (new_loan [] bid rid t) (loans d)"
    and "copies d' = copies d" and "newReleaseBorrowed d' = insert bid (newReleaseBorrowed d)"
  shows "original_inv d'"
  unfolding original_inv_def
proof (intro conjI allI impI)
  from assms show "distinct (map fst (loans d'))"
    by (simp add: original_inv_def distinct_update)
  from assms show "copies d' [] = None" by (simp add: original_inv_def)
next
  fix b
  show "length (open_originals (loans d') b) \<le> 1"
  proof (cases "b = bid")
    case True
    from assms(1,2) have "open_originals (loans d) bid = []"
      by (auto simp: original_inv_def)
    with open_originals_new [of k "new_loan [] bid rid t" "loans d" bid] assms(3) True
    show ?thesis by simp
  next
    case False
    with open_originals_other [of "new_loan [] bid rid t" b k "loans d"] assms(3)
    have "length (open_originals (loans d') b) \<le> length (open_originals (loans d) b)"
      by (simp add: new_loan_def)
    with assms(1) show ?thesis by (auto simp: original_inv_def intro: order_trans)
  qed
  assume ne: "open_originals (loans d') b \<noteq> []"
  show "b \<in> newReleaseBorrowed d'"
  proof (cases "b = bid")
    case True
    with assms(5) show ?thesis by simp
  next
    case False
    with open_originals_other [of "new_loan [] bid rid t" b k "loans d"] assms(3)
    have "length (open_originals (loans d') b) \<le> length (open_originals (loans d) b)"
      by (simp add: new_loan_def)
    with ne have "open_originals (loans d) b \<noteq> []" by auto
    with assms(1,5) show ?thesis by (simp add: original_inv_def)
  qed
qed

lemma original_inv_exec:
  assumes "original_inv (db w)"
  shows "original_inv (db (exec w c))"
proof (cases c)
  case (BorrowCopy cid rid t)
  from borrow_copy_outcomes [of w cid rid t] show ?thesis
  proof
    assume "snd (borrow_copy w cid rid t) = w"
    with assms BorrowCopy show ?thesis by simp
  next
    assume "\<exists>loanId. borrow_copy w cid rid t = (Inr loanId, snd (borrow_copy w cid rid t))"
    then obtain loanId where
      "borrow_copy w cid rid t = (Inr loanId, snd (borrow_copy w cid rid t))" ..
    from borrow_copy_success [OF this] obtain c0 r where c0: "copies (db w) cid = Some c0"
      and w': "snd (borrow_copy w cid rid t) = w\<lparr>db := (db w)
                 \<lparr>loans := AList.update loanId (new_loan cid (bookId_Copy c0) rid (today_or w t))
                             (loans (db w)),
                  copies := (copies (db w))(cid \<mapsto> c0\<lparr>status := LOANED\<rparr>),
                  readers := (readers (db w))
                     (rid \<mapsto> r\<lparr>activeLoanIds := activeLoanIds r @ [loanId]\<rparr>)\<rparr>\<rparr>"
      by blast
    show ?thesis
      using BorrowCopy
      by (auto simp: w' intro!: original_inv_borrow_copy [OF assms c0])
  qed
next
  case (BorrowOriginalNewRelease bid rid t)
  from borrow_original_outcomes [of w bid rid t] show ?thesis
  proof
    assume "snd (borrow_original_new_release w bid rid t) = w"
    with assms BorrowOriginalNewRelease show ?thesis by simp
  next
    assume "\<exists>loanId. borrow_original_new_release w bid rid t =
      (Inr loanId, snd (borrow_original_new_release w bid rid t))"
    then obtain loanId where "borrow_original_new_release w bid rid t =
      (Inr loanId, snd (borrow_original_new_release w bid rid t))" ..
    from borrow_original_success [OF this] obtain r
      where m: "bid \<notin> newReleaseBorrowed (db w)"
      and w': "snd (borrow_original_new_release w bid rid t) = w\<lparr>db := (db w)
                 \<lparr>loans := AList.update loanId (new_loan [] bid rid (today_or w t)) (loans (db w)),
                  newReleaseBorrowed := insert bid (newReleaseBorrowed (db w)),
                  readers := (readers (db w))
                     (rid \<mapsto> r\<lparr>activeLoanIds := activeLoanIds r @ [loanId]\<rparr>)\<rparr>\<rparr>"
      by blast
    show ?thesis
      using BorrowOriginalNewRelease
      by (auto simp: w' intro!: original_inv_borrow_original [OF assms m])
  qed
next
  case (ReturnCopy cid t)
  from return_copy_outcomes [of w cid t] show ?thesis
  proof (elim disjE exE conjE)
    assume "snd (return_copy w cid t) = w"
    with assms ReturnCopy show ?thesis by simp
  next
    fix c0 loanId L R
    assume "db (snd (return_copy w cid t)) = (db w)
         \<lparr>loans := AList.update loanId (L\<lparr>returned := Some (today_or w t)\<rparr>) (loans (db w))\<rparr>"
    with assms ReturnCopy show ?thesis
      by (auto simp: original_inv_def [of "db w"] intro!: original_inv_close [OF assms])
  next
    fix c0 loanId L R
    assume c0: "copies (db w) cid = Some c0"
      and d': "db (snd (return_copy w cid t)) = (db w)
         \<lparr>loans := AList.update loanId (L\<lparr>returned := Some (today_or w t)\<rparr>) (loans (db w)),
          readers := (readers (db w))(readerId L \<mapsto> close_reader R L loanId (today_or w t)),
          copies := (copies (db w))(cid \<mapsto> c0\<lparr>status := IN_LIBRARY\<rparr>)\<rparr>"
    from assms c0 have "cid \<noteq> []" by (auto simp: original_inv_def)
    with assms ReturnCopy d' show ?thesis
      by (auto simp: original_inv_def [of "db w"] intro!: original_inv_close [OF assms])
  qed
next
  case (ReturnOriginalNewRelease bid rid t)
  from return_original_outcomes [of w bid rid t] show ?thesis
  proof (elim disjE exE conjE)
    assume "snd (return_original_new_release w bid rid t) = w"
    with assms ReturnOriginalNewRelease show ?thesis by simp
  next
    fix loanId L R
    assume "db (snd (return_original_new_release w bid rid t)) = (db w)
         \<lparr>loans := AList.update loanId (L\<lparr>returned := Some (today_or w t)\<rparr>) (loans (db w))\<rparr>"
    with assms ReturnOriginalNewRelease show ?thesis
      by (auto simp: original_inv_def [of "db w"] intro!: original_inv_close [OF assms])
  next
    fix loanId L R
    assume f: "find_original_loan (loans (db w)) bid rid = Some loanId"
      and L: "map_of (loans (db w)) loanId = Some L"
      and d': "db (snd (return_original_new_release w bid rid t)) = (db w)
         \<lparr>loans := AList.update loanId (L\<lparr>returned := Some (today_or w t)\<rparr>) (loans (db w)),
          newReleaseBorrowed := newReleaseBorrowed (db w) - {bid},
          readers := (readers (db w))(rid \<mapsto> close_reader R L loanId (today_or w t))\<rparr>"
    show ?thesis
      using ReturnOriginalNewRelease
      by (auto simp: d' intro!: original_inv_return_original [OF assms f L])
  qed
qed

lemma original_inv_run: "original_inv (db w) \<Longrightarrow> original_inv (db (run w evs))"
proof (induction evs arbitrary: w)
  case Nil
  then show ?case by simp
next
  case (Cons ev evs)
  obtain now c where ev: "ev = (now, c)" by (cases ev)
  from Cons.prems have "original_inv (db (w\<lparr>clock := now\<rparr>))" by simp
  then have "original_inv (db (exec (w\<lparr>clock := now\<rparr>) c))" by (rule original_inv_exec)
  then show ?case using ev Cons.IH by simp
qed

lemma original_lent_R1_banned_fields:
  "''B2'' \<in> newReleaseBorrowed (db original_lent_R1_banned)"
  "books (db original_lent_R1_banned) ''B2'' =
     Some \<lparr>id_Book = ''B2'', title = ''Clean C++ (New Release)'',
      year = 2025, author = \<lparr>fullName = ''Some Author'', birthDate = ''1980-01-01''\<rparr>,
      edition = ''1st'', isNewRelease = True\<rparr>"
  "readers (db original_lent_R1_banned) ''R1'' =
     Some \<lparr>id_Reader = ''R1'', email = ''alice@example.com'',
           activeBanUntil = Some 739525, activeLoanIds = []\<rparr>"
  by (simp_all add: original_lent_R1_banned_def original_lent_eq seed_def seed_db_def)

lemma original_lent_more_fields:
  "''B2'' \<in> newReleaseBorrowed (db original_lent)"
  "books (db original_lent) ''B2'' =
     Some \<lparr>id_Book = ''B2'', title = ''Clean C++ (New Release)'',
      year = 2025, author = \<lparr>fullName = ''Some Author'', birthDate = ''1980-01-01''\<rparr>,
      edition = ''1st'', isNewRelease = True\<rparr>"
  "readers (db original_lent) ''R1'' =
     Some \<lparr>id_Reader = ''R1'', email = ''alice@example.com'',
           activeBanUntil = None, activeLoanIds = []\<rparr>"
  "length (loans (db original_lent)) = 1"
  by (simp_all add: original_lent_eq seed_def seed_db_def)

text \<open>
  C7, as the code has it. In a store where the loans are a dictionary, the sentinel is
  not the id of a copy, and every book has at most one open loan of its original and
  is in the borrowed set when it has one (so in every store without loans), this
  remains so whatever calls are made, with whatever outcome. While a book is in the
  borrowed set, \<open>borrow_original_new_release\<close> for it never succeeds and changes nothing;
  it raises \<open>ORIGINAL_ALREADY_BORROWED\<close> when the four checks made before pass: the book
  and the reader exist, the book is a new release and the reader can borrow; for a new
  release it raises \<open>READER_NOT_FOUND\<close> when the reader does not exist and
  \<open>BORROW_FORBIDDEN\<close> when the reader cannot borrow. After a
  successful \<open>return_original_new_release\<close> of a new release, a reader who can borrow on a
  day whose due date is representable borrows the original with success.
\<close>

theorem original_exclusive:
  "(original_inv (db w) \<longrightarrow>
      original_inv (db (run w evs)) \<and>
      (\<forall>b. length (open_originals (loans (db (run w evs))) b) \<le> 1)) \<and>
   (bookId' \<in> newReleaseBorrowed (db w) \<longrightarrow>
      (\<exists>e. borrow_original_new_release w bookId' readerId' t = (Inl e, w))) \<and>
   (\<forall>B R. bookId' \<in> newReleaseBorrowed (db w) \<and> books (db w) bookId' = Some B \<and>
        isNewRelease B \<and> readers (db w) readerId' = Some R \<and> can_borrow R (today_or w t) \<longrightarrow>
      borrow_original_new_release w bookId' readerId' t =
        (Inl (ValueError ORIGINAL_ALREADY_BORROWED), w)) \<and>
   (\<forall>B R. books (db w) bookId' = Some B \<and> isNewRelease B \<and>
        readers (db w) readerId' = Some R \<and> \<not> can_borrow R (today_or w t) \<longrightarrow>
      borrow_original_new_release w bookId' readerId' t =
        (Inl (ValueError BORROW_FORBIDDEN), w)) \<and>
   (\<forall>B. books (db w) bookId' = Some B \<and> readers (db w) readerId' = None \<longrightarrow>
      borrow_original_new_release w bookId' readerId' t =
        (Inl (ValueError READER_NOT_FOUND), w)) \<and>
   (\<forall>B R2. fst (return_original_new_release w bookId' readerId' t) = Inr () \<and>
        books (db w) bookId' = Some B \<and> isNewRelease B \<and>
        readers (db (snd (return_original_new_release w bookId' readerId' t))) reader2 = Some R2 \<and>
        can_borrow R2 asOf \<and> MINORDINAL \<le> asOf + 30 \<and> asOf + 30 \<le> MAXORDINAL \<longrightarrow>
      fst (borrow_original_new_release (snd (return_original_new_release w bookId' readerId' t))
             bookId' reader2 (Some asOf)) =
        Inr (next_loan_id (loans (db (snd (return_original_new_release w bookId' readerId' t))))))"
proof -
  have inv: "original_inv (db w) \<longrightarrow>
      original_inv (db (run w evs)) \<and>
      (\<forall>b. length (open_originals (loans (db (run w evs))) b) \<le> 1)"
  proof
    assume "original_inv (db w)"
    then have "original_inv (db (run w evs))" by (rule original_inv_run)
    then show "original_inv (db (run w evs)) \<and>
      (\<forall>b. length (open_originals (loans (db (run w evs))) b) \<le> 1)"
      by (simp add: original_inv_def)
  qed
  have fails: "bookId' \<in> newReleaseBorrowed (db w) \<longrightarrow>
      (\<exists>e. borrow_original_new_release w bookId' readerId' t = (Inl e, w))"
    by (auto simp: borrow_original_new_release_def Let_def split: option.splits)
  have already: "\<forall>B R. bookId' \<in> newReleaseBorrowed (db w) \<and> books (db w) bookId' = Some B \<and>
        isNewRelease B \<and> readers (db w) readerId' = Some R \<and> can_borrow R (today_or w t) \<longrightarrow>
      borrow_original_new_release w bookId' readerId' t =
        (Inl (ValueError ORIGINAL_ALREADY_BORROWED), w)"
    by (auto simp: borrow_original_new_release_def Let_def)
  have forbidden: "\<forall>B R. books (db w) bookId' = Some B \<and> isNewRelease B \<and>
        readers (db w) readerId' = Some R \<and> \<not> can_borrow R (today_or w t) \<longrightarrow>
      borrow_original_new_release w bookId' readerId' t =
        (Inl (ValueError BORROW_FORBIDDEN), w)"
    by (auto simp: borrow_original_new_release_def Let_def)
  have no_reader: "\<forall>B. books (db w) bookId' = Some B \<and> readers (db w) readerId' = None \<longrightarrow>
      borrow_original_new_release w bookId' readerId' t =
        (Inl (ValueError READER_NOT_FOUND), w)"
    by (auto simp: borrow_original_new_release_def Let_def)
  have again: "\<forall>B R2. fst (return_original_new_release w bookId' readerId' t) = Inr () \<and>
        books (db w) bookId' = Some B \<and> isNewRelease B \<and>
        readers (db (snd (return_original_new_release w bookId' readerId' t))) reader2 = Some R2 \<and>
        can_borrow R2 asOf \<and> MINORDINAL \<le> asOf + 30 \<and> asOf + 30 \<le> MAXORDINAL \<longrightarrow>
      fst (borrow_original_new_release (snd (return_original_new_release w bookId' readerId' t))
             bookId' reader2 (Some asOf)) =
        Inr (next_loan_id (loans (db (snd (return_original_new_release w bookId' readerId' t)))))"
  proof (intro allI impI, elim conjE)
    fix B R2
    let ?w1 = "snd (return_original_new_release w bookId' readerId' t)"
    assume ok: "fst (return_original_new_release w bookId' readerId' t) = Inr ()"
      and B: "books (db w) bookId' = Some B" "isNewRelease B"
      and R2: "readers (db ?w1) reader2 = Some R2" "can_borrow R2 asOf"
      and range: "MINORDINAL \<le> asOf + 30" "asOf + 30 \<le> MAXORDINAL"
    from ok have "return_original_new_release w bookId' readerId' t = (Inr (), ?w1)"
      by (metis prod.collapse)
    from return_original_success [OF this]
    have "books (db ?w1) = books (db w)" "bookId' \<notin> newReleaseBorrowed (db ?w1)"
      by auto
    with B R2 range
    show "fst (borrow_original_new_release ?w1 bookId' reader2 (Some asOf)) =
        Inr (next_loan_id (loans (db ?w1)))"
      by (simp add: borrow_original_new_release_def Let_def today_or_def add_days_def)
  qed
  from inv fails already forbidden no_reader again show ?thesis by blast
qed

text \<open>The test \<open>test_new_release_original_exclusivo\<close>: while \<open>R2\<close> holds the original of \<open>B2\<close>,
  the borrow of \<open>R1\<close> raises \<open>ORIGINAL_ALREADY_BORROWED\<close>; after the return of \<open>R2\<close> on 2025-10-10
  it gives the loan \<open>L2\<close>; and after the four calls of the test, made on the seed, the
  original of \<open>B2\<close> has one open loan.\<close>

theorem original_exclusive_witness:
  "original_inv (db seed) \<and> original_inv (db (run seed exclusive_calls)) \<and>
   length (open_originals (loans (db (run seed exclusive_calls))) ''B2'') \<le> 1 \<and>
   borrow_original_new_release original_lent ''B2'' ''R1'' (Some 739525) =
     (Inl (ValueError ORIGINAL_ALREADY_BORROWED), original_lent) \<and>
   fst (return_original_new_release original_lent ''B2'' ''R2'' (Some 739534)) = Inr () \<and>
   fst (borrow_original_new_release
          (snd (return_original_new_release original_lent ''B2'' ''R2'' (Some 739534)))
          ''B2'' ''R1'' (Some 739525)) = Inr ''L2''"
proof -
  have i: "original_inv (db seed)"
    by (rule original_inv_empty) (simp_all add: seed_def seed_db_def)
  have r: "fst (return_original_new_release original_lent ''B2'' ''R2'' (Some 739534)) = Inr ()"
    by (simp add: original_lent_eq return_original_new_release_def eval_simps)
  have d: "db (snd (return_original_new_release original_lent ''B2'' ''R2'' (Some 739534))) =
      (db original_lent)
       \<lparr>loans := AList.update ''L1''
          (\<lparr>copyId = [], bookId = ''B2'', readerId = ''R2'', start = 739525, due = 739555,
            returned = None\<rparr>\<lparr>returned := Some 739534\<rparr>) (loans (db original_lent)),
        newReleaseBorrowed := newReleaseBorrowed (db original_lent) - {''B2''},
        readers := (readers (db original_lent))
          (''R2'' \<mapsto> close_reader \<lparr>id_Reader = ''R2'', email = ''bob@example.com'',
                     activeBanUntil = Some 739500, activeLoanIds = [''L1'']\<rparr>
             \<lparr>copyId = [], bookId = ''B2'', readerId = ''R2'', start = 739525, due = 739555,
              returned = None\<rparr> ''L1'' 739534)\<rparr>"
    using r original_lent_fields by (rule return_original_db)
  have r1: "readers (db (snd (return_original_new_release original_lent ''B2'' ''R2''
      (Some 739534)))) ''R1'' = Some \<lparr>id_Reader = ''R1'', email = ''alice@example.com'',
           activeBanUntil = None, activeLoanIds = []\<rparr>"
    and l: "length (loans (db (snd (return_original_new_release original_lent ''B2'' ''R2''
      (Some 739534))))) = 1"
    by (simp_all add: d original_lent_more_fields) (simp add: original_lent_eq)
  from i r r1 l original_lent_more_fields
    original_exclusive [of seed exclusive_calls "''B2''" "''R1''" "Some 739525" "''R1''" 739525]
    original_exclusive [of original_lent "[]" "''B2''" "''R1''" "Some 739525" "''R1''" 739525]
    original_exclusive [of original_lent "[]" "''B2''" "''R2''" "Some 739534" "''R1''" 739525]
  show ?thesis
    by (simp add: today_or_def can_borrow_def MINORDINAL_def MAXORDINAL_def next_loan_id_def
        str_nat_small digit_def)
qed

text \<open>The claim as the specification words it fails for a reader who cannot borrow:
  while \<open>R2\<close> holds the original of \<open>B2\<close>, the borrow of \<open>R1\<close>, banned until that day, raises
  \<open>BORROW_FORBIDDEN\<close>.\<close>

theorem original_borrowed_counterexample:
  "''B2'' \<in> newReleaseBorrowed (db original_lent_R1_banned) \<and>
   fst (borrow_original_new_release original_lent_R1_banned ''B2'' ''R1'' (Some 739525))
     = Inl (ValueError BORROW_FORBIDDEN) \<and>
   fst (borrow_original_new_release original_lent_R1_banned ''B2'' ''R1'' (Some 739525))
     \<noteq> Inl (ValueError ORIGINAL_ALREADY_BORROWED)"
  by (simp add: original_lent_R1_banned_fields borrow_original_new_release_def Let_def
      today_or_def can_borrow_def)

end
